theory Spec2Isabelle
  imports Main

begin

section \<open>GitHub-Repo-Extractor: a shallow embedding of extractor.py\<close>

text \<open>
  The script mines a GitHub repository through the pygithub client and writes one
  header row and RATE_LIMIT data rows to a delimited text file. The embedding keeps
  the structure of the script: one HOL function per Python function, the locals of
  every loop as a record that is passed from iteration to iteration, every exception
  as a value of \<open>exn\<close>, and the remote service as an explicit parameter.
\<close>

subsection \<open>Constants\<close>

definition COMMIT_COL_NAMES :: "string list" where
  "COMMIT_COL_NAMES = [''Author_Login'', ''Committer_login'', ''PR_Number'',
                       ''SHA'', ''Commit_Message'', ''File_name'',
                       ''Patch_text'', ''Additions'', ''Deletions'',
                       ''Status'', ''Changes'']"

definition PR_COL_NAMES :: "string list" where
  "PR_COL_NAMES = [''PR_Number'', ''Issue_Closed_Date'', ''Issue_Author'',
                   ''Issue_Title'', ''Issue_Body'', ''PR_Closed_Date'',
                   ''PR_Author'', ''PR_Title'', ''PR_Body'', ''PR_Comments'',
                   ''Issue_Comments'', ''Commit_Author'', ''Commit_Date'',
                   ''Commit_Message'', ''isPR'']"

definition RATE_LIMIT :: nat where
  "RATE_LIMIT = 5"

text \<open>The literal \<^verbatim>\<open>" =||= "\<close> that the script writes for an absent value.\<close>

definition sentinel :: string where
  "sentinel = '' =||= ''"

subsection \<open>Python values, strings and exceptions\<close>

text \<open>
  A fragment is a Python list whose entries are strings, integers (the PR number, the
  isPR flag, the summed additions) or a list of strings (the changed file names).
\<close>

datatype pyval = PyStr string | PyInt int | PyList "string list"

text \<open>
  The exceptions that the modelled statements can raise. Only
  \<open>RateLimitExceededException\<close> is ever caught by the script.
\<close>

datatype exn = RateLimitExceededException | IndexError | AttributeError

text \<open>Python's \<^verbatim>\<open>xs[i]\<close> on a list, for an index that is not negative.\<close>

definition getitem :: "'a list \<Rightarrow> nat \<Rightarrow> exn + 'a" where
  "getitem xs i = (if i < length xs then Inr (xs ! i) else Inl IndexError)"

text \<open>Sequencing of statements that may raise.\<close>

definition bind :: "exn + 'a \<Rightarrow> ('a \<Rightarrow> exn + 'b) \<Rightarrow> exn + 'b" where
  "bind m f = (case m of Inl e \<Rightarrow> Inl e | Inr x \<Rightarrow> f x)"

text \<open>The statements of the aggregation loop raise nothing but \<open>IndexError\<close>.\<close>

definition raises_only_IndexError :: "exn + 'a \<Rightarrow> bool" where
  "raises_only_IndexError m = (case m of Inl e \<Rightarrow> e = IndexError | Inr x \<Rightarrow> True)"

text \<open>\<^verbatim>\<open>str(n)\<close> for an integer: the decimal digits, with a minus sign below zero.\<close>

definition digit_char :: "nat \<Rightarrow> char" where
  "digit_char d = char_of (48 + d)"

fun digits :: "nat \<Rightarrow> string" where
  "digits n = (if n < 10 then [digit_char n] else digits (n div 10) @ [digit_char (n mod 10)])"

declare digits.simps [simp del]

definition str_int :: "int \<Rightarrow> string" where
  "str_int i = (if i < 0 then CHR ''-'' # digits (nat (- i)) else digits (nat i))"

text \<open>\<^verbatim>\<open>str(x)\<close> for an attribute that is a string or \<^verbatim>\<open>None\<close>.\<close>

definition str_opt :: "string option \<Rightarrow> string" where
  "str_opt x = (case x of None \<Rightarrow> ''None'' | Some s \<Rightarrow> s)"

text \<open>
  \<^verbatim>\<open>s.strip(chars)\<close> removes the characters of \<open>chars\<close> from both ends of the
  string and nothing in between.
\<close>

definition strip_chars :: "string \<Rightarrow> string \<Rightarrow> string" where
  "strip_chars chars s =
     rev (dropWhile (\<lambda>c. c \<in> set chars) (rev (dropWhile (\<lambda>c. c \<in> set chars) s)))"

text \<open>
  \<^verbatim>\<open>s.strip()\<close> removes whitespace from both ends. A character of the model is a
  code point below 256. Python's whitespace among these is tab, line feed, vertical
  tab, form feed, carriage return, the four separators 0x1C to 0x1F, the space, the
  next-line character 0x85 and the no-break space 0xA0.
\<close>

definition whitespace :: string where
  "whitespace = [CHR 0x09, CHR 0x0A, CHR 0x0B, CHR 0x0C, CHR 0x0D,
                 CHR 0x1C, CHR 0x1D, CHR 0x1E, CHR 0x1F, CHR 0x20,
                 CHR 0x85, CHR 0xA0]"

definition strip :: "string \<Rightarrow> string" where
  "strip s = strip_chars whitespace s"

text \<open>\<^verbatim>\<open>"\"" + s + "\""\<close>\<close>

definition quoted :: "string \<Rightarrow> string" where
  "quoted s = [CHR 0x22] @ s @ [CHR 0x22]"

text \<open>
  \<^verbatim>\<open>d.strftime("%m/%d/%y %I:%M:%S %p")\<close> with TIME_FORM_STR, in the C locale:
  two-digit month, day, year of the century, hour of the 12-hour clock, minute and
  second, then AM or PM.
\<close>

record datetime =
  year :: nat
  month :: nat
  day :: nat
  hour :: nat
  minute :: nat
  second :: nat

definition pad2 :: "nat \<Rightarrow> string" where
  "pad2 n = (if n < 10 then CHR ''0'' # digits n else digits n)"

definition strftime :: "datetime \<Rightarrow> string" where
  "strftime d =
     pad2 (month d) @ ''/'' @ pad2 (day d) @ ''/'' @ pad2 (year d mod 100) @ '' '' @
     pad2 (if hour d mod 12 = 0 then 12 else hour d mod 12) @ '':'' @
     pad2 (minute d) @ '':'' @ pad2 (second d) @ '' '' @
     (if hour d < 12 then ''AM'' else ''PM'')"

subsection \<open>The remote service\<close>

text \<open>
  The records of pygithub that the script reads, with the attributes it reads. An
  attribute that GitHub may leave empty (\<^verbatim>\<open>None\<close> in Python) is an option.
  \<open>p_commits\<close> is the content of \<^verbatim>\<open>cur_pr.get_commits()\<close>, oldest commit first.
\<close>

record gh_file =
  f_filename :: string
  f_additions :: int
  f_changes :: int
  f_deletions :: int
  f_patch :: "string option"
  f_status :: string

record commit =
  c_author_name :: string
  c_author_date :: datetime
  c_committer_name :: string
  c_message :: string
  c_sha :: string
  c_files :: "gh_file list"

record pull_request =
  p_number :: int
  p_user_login :: string
  p_body :: "string option"
  p_closed_at :: "datetime option"
  p_comments :: int
  p_title :: string
  p_commits :: "commit list"

record issue =
  i_user_name :: "string option"
  i_body :: "string option"
  i_comments :: int
  i_closed_at :: "datetime option"
  i_title :: string
  i_pull_request :: "string option"

text \<open>
  An entry of \<^verbatim>\<open>commits_list\<close> is a string (the placeholder) or a commit object.
\<close>

datatype commit_ref = Placeholder string | Commit commit

text \<open>
  The authenticated session: the string given to \<^verbatim>\<open>github.Github\<close> and the
  quota of the service. The quota is a schedule: each request to the service takes the
  head of \<open>throttle\<close>, and \<open>True\<close> there makes the request raise
  \<open>RateLimitExceededException\<close>. An empty schedule never throttles, and a schedule
  is finite: the quota resets while \<^verbatim>\<open>run_timer\<close> sleeps.

  The requests of the script are \<^verbatim>\<open>session.get_repo\<close>, the indexing of a paginated
  list (\<^verbatim>\<open>pr_list[index]\<close>, \<^verbatim>\<open>issue_list[index]\<close>, \<^verbatim>\<open>pr_commits[i]\<close>),
  \<^verbatim>\<open>pr_commits.totalCount\<close> and \<^verbatim>\<open>cur_commit.files\<close>. An attribute that
  pygithub completes on first use (the name of a user, the comment count of a pull
  request) is read before its pass has appended anything, where an exception and the
  retry leave no trace; such reads have no request of their own in the model. Neither
  has the quota display of \<^verbatim>\<open>print_rem_calls\<close>.
\<close>

record session =
  login_or_token :: string
  throttle :: "bool list"

definition request :: "session \<Rightarrow> bool \<times> session" where
  "request sesh =
     (case throttle sesh of
        [] \<Rightarrow> (False, sesh)
      | b # bs \<Rightarrow> (b, sesh\<lparr>throttle := bs\<rparr>))"

text \<open>
  \<^verbatim>\<open>paged[i]\<close> on a paginated list: a request, then the item or
  \<open>IndexError\<close>.
\<close>

definition paged_getitem :: "session \<Rightarrow> 'a list \<Rightarrow> nat \<Rightarrow> session \<times> (exn + 'a)" where
  "paged_getitem sesh paged i =
     (let (limited, sesh') = request sesh
      in if limited then (sesh', Inl RateLimitExceededException)
         else (sesh', getitem paged i))"

text \<open>\<^verbatim>\<open>paged.totalCount\<close>: a request, then the number of items.\<close>

definition totalCount :: "session \<Rightarrow> 'a list \<Rightarrow> session \<times> (exn + nat)" where
  "totalCount sesh paged =
     (let (limited, sesh') = request sesh
      in if limited then (sesh', Inl RateLimitExceededException)
         else (sesh', Inr (length paged)))"

text \<open>
  \<^verbatim>\<open>cur_commit.files\<close>: the commits listed for a pull request come without their
  files, so reading the attribute is a request.
\<close>

definition files :: "session \<Rightarrow> commit \<Rightarrow> session \<times> (exn + gh_file list)" where
  "files sesh c =
     (let (limited, sesh') = request sesh
      in if limited then (sesh', Inl RateLimitExceededException)
         else (sesh', Inr (c_files c)))"

subsection \<open>get_PR_info\<close>

text \<open>The locals of \<^verbatim>\<open>get_PR_info\<close> that live across iterations.\<close>

record pr_locals =
  commits_list :: "commit_ref list"
  pr_index :: nat
  most_recent_commit :: commit_ref
  pr_info_list :: "pyval list"
  pr_metalist :: "pyval list list"

text \<open>\<^verbatim>\<open>str(n)\<close> of a comment count, with the special string in place of '0'.\<close>

definition comment_str :: "int \<Rightarrow> string" where
  "comment_str n = (let s = str_int n in if s = ''0'' then sentinel else s)"

text \<open>
  \<^verbatim>\<open>x.closed_at.strftime(TIME_FORM_STR)\<close>: an entity that is not closed has no
  \<^verbatim>\<open>closed_at\<close>, and the call raises.
\<close>

definition closed_date_str :: "datetime option \<Rightarrow> exn + string" where
  "closed_date_str d = (case d of None \<Rightarrow> Inl AttributeError | Some t \<Rightarrow> Inr (strftime t))"

text \<open>The fields that output type "pr" adds to \<^verbatim>\<open>pr_info_list\<close>.\<close>

definition pr_type_fields :: "pull_request \<Rightarrow> exn + pyval list" where
  "pr_type_fields cur_pr =
     (let pr_author_str = p_user_login cur_pr;
          pr_body_str = str_opt (p_body cur_pr)
      in bind (closed_date_str (p_closed_at cur_pr)) (\<lambda>pr_closed_date_str.
         let pr_comment_str = comment_str (p_comments cur_pr);
             pr_title_str = p_title cur_pr;
             pr_body_stripped = strip_chars [CHR 0x0A] pr_body_str;
             pr_body_str = quoted pr_body_stripped
         in Inr [PyStr pr_author_str, PyStr pr_body_str, PyStr pr_closed_date_str,
                 PyStr pr_comment_str, PyStr pr_title_str]))"

text \<open>
  One pass through the \<^verbatim>\<open>try\<close> block of the loop: the session and the locals as
  the block leaves them, and the exception if it raised. The locals keep every
  assignment made before the exception.
\<close>

definition pr_try :: "string \<Rightarrow> pull_request list \<Rightarrow> session \<Rightarrow> pr_locals
                       \<Rightarrow> session \<times> pr_locals \<times> exn option" where
  "pr_try output_type pr_list sesh st =
     (case paged_getitem sesh pr_list (pr_index st) of
        (sesh1, Inl e) \<Rightarrow> (sesh1, st, Some e)
      | (sesh1, Inr cur_pr) \<Rightarrow>
          (let pr_num_str = p_number cur_pr;
               pr_commits = p_commits cur_pr;
               st1 = st\<lparr>pr_info_list := [PyInt pr_num_str]\<rparr>
           in case (if output_type = ''pr''
                    then bind (pr_type_fields cur_pr)
                           (\<lambda>fs. Inr (st1\<lparr>pr_info_list := pr_info_list st1 @ fs\<rparr>))
                    else Inr st1) of
                Inl e \<Rightarrow> (sesh1, st1, Some e)
              | Inr st2 \<Rightarrow>
                  (let st3 = st2\<lparr>pr_metalist := pr_metalist st2 @ [pr_info_list st2]\<rparr>
                   in case totalCount sesh1 pr_commits of
                        (sesh2, Inl e) \<Rightarrow> (sesh2, st3, Some e)
                      | (sesh2, Inr total_count) \<Rightarrow>
                          (let last_commit_position = int total_count - 1
                           in case (if last_commit_position \<ge> 0
                                    then (case paged_getitem sesh2 pr_commits
                                                 (nat last_commit_position) of
                                            (sesh3, Inl e) \<Rightarrow> (sesh3, Inl e)
                                          | (sesh3, Inr c) \<Rightarrow>
                                              (sesh3, Inr (st3\<lparr>most_recent_commit := Commit c\<rparr>)))
                                    else (sesh2, Inr st3)) of
                                (sesh3, Inl e) \<Rightarrow> (sesh3, st3, Some e)
                              | (sesh3, Inr st4) \<Rightarrow>
                                  (sesh3,
                                   st4\<lparr>commits_list := commits_list st4 @ [most_recent_commit st4],
                                       pr_index := pr_index st4 + 1\<rparr>,
                                   None)))))"

text \<open>
  The \<^verbatim>\<open>while index < RATE_LIMIT\<close> loop. The handler of
  \<open>RateLimitExceededException\<close> sleeps in \<^verbatim>\<open>run_timer\<close> and falls through to the
  next pass with the locals as the block left them; any other exception ends the run.
\<close>

function get_PR_loop :: "string \<Rightarrow> pull_request list \<Rightarrow> session \<Rightarrow> pr_locals
                          \<Rightarrow> exn + (session \<times> pr_locals)" where
  "get_PR_loop output_type pr_list sesh st =
     (if pr_index st < RATE_LIMIT
      then (case pr_try output_type pr_list sesh st of
              (sesh', st', None) \<Rightarrow> get_PR_loop output_type pr_list sesh' st'
            | (sesh', st', Some e) \<Rightarrow>
                (if e = RateLimitExceededException
                 then get_PR_loop output_type pr_list sesh' st'
                 else Inl e))
      else Inr (sesh, st))"
  by pat_completeness auto

definition get_PR_info :: "pull_request list \<Rightarrow> session \<Rightarrow> string
                          \<Rightarrow> exn + (session \<times> pyval list list \<times> commit_ref list)" where
  "get_PR_info pr_list sesh output_type =
     (case get_PR_loop output_type pr_list sesh
             \<lparr>commits_list = [], pr_index = 0, most_recent_commit = Placeholder sentinel,
              pr_info_list = [], pr_metalist = []\<rparr> of
        Inl e \<Rightarrow> Inl e
      | Inr (sesh', st) \<Rightarrow> Inr (sesh', pr_metalist st, commits_list st))"

text \<open>
  The entries that \<^verbatim>\<open>get_PR_info\<close> can put into \<^verbatim>\<open>commits_list\<close>: the
  placeholder or a commit object.
\<close>

definition placeholder_or_commit :: "commit_ref \<Rightarrow> bool" where
  "placeholder_or_commit r = (case r of Placeholder s \<Rightarrow> s = '' =||= '' | Commit c \<Rightarrow> True)"

subsection \<open>get_commit_info\<close>

text \<open>
  The locals of \<^verbatim>\<open>get_commit_info\<close>. The eleven entries from \<open>commit_author\<close> on
  are initialised with the special string before the loop. (\<open>commit_info_metalist_l\<close>
  is the local \<^verbatim>\<open>commit_info_metalist\<close>.)
\<close>

record commit_locals =
  commit_info_list :: "pyval list"
  commit_info_metalist_l :: "pyval list list"
  commit_list_index :: nat
  commit_author :: pyval
  commit_message :: pyval
  commit_date :: pyval
  commit_committer :: pyval
  commit_SHA :: pyval
  file_list :: pyval
  commit_patch_text :: pyval
  commit_adds :: pyval
  commit_rms :: pyval
  quoted_commit_status_str :: pyval
  commit_changes :: pyval

text \<open>The accumulators of the \<^verbatim>\<open>for file in commit_files\<close> loop.\<close>

record file_acc =
  acc_file_list :: "string list"
  acc_adds :: int
  acc_changes :: int
  acc_patch_text :: string
  acc_rms :: int
  acc_status_str :: string

definition file_step :: "gh_file \<Rightarrow> file_acc \<Rightarrow> file_acc" where
  "file_step file acc =
     \<lparr>acc_file_list = acc_file_list acc @ [f_filename file],
      acc_adds = acc_adds acc + f_additions file,
      acc_changes = acc_changes acc + f_changes file,
      acc_patch_text = acc_patch_text acc @ str_opt (f_patch file) @ '', '',
      acc_rms = acc_rms acc + f_deletions file,
      acc_status_str = acc_status_str acc @ f_status file @ '', ''\<rparr>"

text \<open>The branch \<^verbatim>\<open>if cur_commit != " =||= "\<close> for a commit object.\<close>

definition commit_branch :: "string \<Rightarrow> commit \<Rightarrow> session \<Rightarrow> commit_locals
                             \<Rightarrow> session \<times> commit_locals \<times> exn option" where
  "commit_branch output_type c sesh st =
     (let st1 = st\<lparr>commit_author := PyStr (c_author_name c)\<rparr>;
          st2 = st1\<lparr>commit_message := PyStr (quoted (c_message c))\<rparr>;
          st3 = st2\<lparr>commit_info_list := [commit_author st2, commit_message st2]\<rparr>
      in if output_type = ''pr''
         then (let commit_date_raw = c_author_date c;
                   st4 = st3\<lparr>commit_date := PyStr (strftime commit_date_raw)\<rparr>
               in (sesh, st4\<lparr>commit_info_list := commit_info_list st4 @ [commit_date st4]\<rparr>,
                   None))
         else (let st4 = st3\<lparr>commit_adds := PyInt 0, commit_changes := PyInt 0,
                             commit_patch_text := PyStr [], commit_rms := PyInt 0,
                             file_list := PyList []\<rparr>
               in case files sesh c of
                    (sesh1, Inl e) \<Rightarrow> (sesh1, st4, Some e)
                  | (sesh1, Inr commit_files) \<Rightarrow>
                      (let st5 = st4\<lparr>commit_committer := PyStr (c_committer_name c),
                                      commit_SHA := PyStr (c_sha c)\<rparr>;
                           acc = fold file_step commit_files
                                   \<lparr>acc_file_list = [], acc_adds = 0, acc_changes = 0,
                                    acc_patch_text = [], acc_rms = 0, acc_status_str = []\<rparr>;
                           st6 = st5\<lparr>file_list := PyList (acc_file_list acc),
                                      commit_adds := PyInt (acc_adds acc),
                                      commit_changes := PyInt (acc_changes acc),
                                      commit_patch_text := PyStr (acc_patch_text acc),
                                      commit_rms := PyInt (acc_rms acc)\<rparr>;
                           st7 = st6\<lparr>quoted_commit_status_str :=
                                        PyStr (quoted (acc_status_str acc))\<rparr>
                       in (sesh1,
                           st7\<lparr>commit_info_list := commit_info_list st7 @
                                  [commit_committer st7, commit_SHA st7, file_list st7,
                                   commit_patch_text st7, commit_adds st7, commit_rms st7,
                                   quoted_commit_status_str st7, commit_changes st7]\<rparr>,
                           None))))"

text \<open>
  One pass through the \<^verbatim>\<open>try\<close> block. \<^verbatim>\<open>commit_list\<close> is a Python list, so
  reading it is no request. A string other than the placeholder has no attribute
  \<^verbatim>\<open>commit\<close>.
\<close>

definition commit_try :: "string \<Rightarrow> commit_ref list \<Rightarrow> session \<Rightarrow> commit_locals
                          \<Rightarrow> session \<times> commit_locals \<times> exn option" where
  "commit_try output_type commit_list sesh st =
     (case getitem commit_list (commit_list_index st) of
        Inl e \<Rightarrow> (sesh, st, Some e)
      | Inr cur_commit \<Rightarrow>
          (case (if cur_commit \<noteq> Placeholder '' =||= ''
                 then (case cur_commit of
                         Placeholder s \<Rightarrow> (sesh, st, Some AttributeError)
                       | Commit c \<Rightarrow> commit_branch output_type c sesh st)
                 else (sesh, st, None)) of
             (sesh1, st1, Some e) \<Rightarrow> (sesh1, st1, Some e)
           | (sesh1, st1, None) \<Rightarrow>
               (sesh1,
                st1\<lparr>commit_info_metalist_l := commit_info_metalist_l st1 @ [commit_info_list st1],
                    commit_list_index := commit_list_index st1 + 1\<rparr>,
                None)))"

function get_commit_loop :: "string \<Rightarrow> commit_ref list \<Rightarrow> session \<Rightarrow> commit_locals
                              \<Rightarrow> exn + (session \<times> commit_locals)" where
  "get_commit_loop output_type commit_list sesh st =
     (if commit_list_index st < RATE_LIMIT
      then (case commit_try output_type commit_list sesh st of
              (sesh', st', None) \<Rightarrow> get_commit_loop output_type commit_list sesh' st'
            | (sesh', st', Some e) \<Rightarrow>
                (if e = RateLimitExceededException
                 then get_commit_loop output_type commit_list sesh' st'
                 else Inl e))
      else Inr (sesh, st))"
  by pat_completeness auto

definition get_commit_info :: "commit_ref list \<Rightarrow> session \<Rightarrow> string
                              \<Rightarrow> exn + (session \<times> pyval list list)" where
  "get_commit_info commit_list sesh output_type =
     (case get_commit_loop output_type commit_list sesh
             \<lparr>commit_info_list = [], commit_info_metalist_l = [], commit_list_index = 0,
              commit_author = PyStr '' =||= '', commit_message = PyStr '' =||= '',
              commit_date = PyStr '' =||= '', commit_committer = PyStr '' =||= '',
              commit_SHA = PyStr '' =||= '', file_list = PyStr '' =||= '',
              commit_patch_text = PyStr '' =||= '', commit_adds = PyStr '' =||= '',
              commit_rms = PyStr '' =||= '', quoted_commit_status_str = PyStr '' =||= '',
              commit_changes = PyStr '' =||= ''\<rparr> of
        Inl e \<Rightarrow> Inl e
      | Inr (sesh', st) \<Rightarrow> Inr (sesh', commit_info_metalist_l st))"

subsection \<open>get_issue_info\<close>

text \<open>The locals of \<^verbatim>\<open>get_issue_info\<close> that live across iterations.\<close>

record issue_locals =
  issue_index :: nat
  isPR :: int
  issue_context_list :: "pyval list"
  issue_metalist :: "pyval list list"

definition issue_try :: "issue list \<Rightarrow> session \<Rightarrow> issue_locals
                         \<Rightarrow> session \<times> issue_locals \<times> exn option" where
  "issue_try issue_list sesh st =
     (case paged_getitem sesh issue_list (issue_index st) of
        (sesh1, Inl e) \<Rightarrow> (sesh1, st, Some e)
      | (sesh1, Inr cur_issue) \<Rightarrow>
          (let issue_author_str = str_opt (i_user_name cur_issue);
               issue_body_str = str_opt (i_body cur_issue);
               issue_comment_str = str_int (i_comments cur_issue)
           in case closed_date_str (i_closed_at cur_issue) of
                Inl e \<Rightarrow> (sesh1, st, Some e)
              | Inr issue_closed_date \<Rightarrow>
                  (let issue_title_str = i_title cur_issue;
                       st1 = (if i_pull_request cur_issue \<noteq> None then st\<lparr>isPR := 1\<rparr> else st);
                       issue_body_stripped = strip_chars [CHR 0x0A] issue_body_str;
                       issue_body_str = quoted issue_body_stripped;
                       issue_comment_str = (if issue_comment_str = ''0'' then '' =||= ''
                                            else issue_comment_str);
                       st2 = st1\<lparr>issue_context_list :=
                                    [PyStr issue_closed_date, PyStr issue_author_str,
                                     PyStr issue_title_str, PyStr issue_body_str,
                                     PyStr issue_comment_str, PyInt (isPR st1)]\<rparr>
                   in (sesh1,
                       st2\<lparr>issue_metalist := issue_metalist st2 @ [issue_context_list st2],
                           issue_index := issue_index st2 + 1\<rparr>,
                       None))))"

function get_issue_loop :: "issue list \<Rightarrow> session \<Rightarrow> issue_locals
                             \<Rightarrow> exn + (session \<times> issue_locals)" where
  "get_issue_loop issue_list sesh st =
     (if issue_index st < RATE_LIMIT
      then (case issue_try issue_list sesh st of
              (sesh', st', None) \<Rightarrow> get_issue_loop issue_list sesh' st'
            | (sesh', st', Some e) \<Rightarrow>
                (if e = RateLimitExceededException
                 then get_issue_loop issue_list sesh' st'
                 else Inl e))
      else Inr (sesh, st))"
  by pat_completeness auto

definition get_issue_info :: "issue list \<Rightarrow> session \<Rightarrow> exn + (session \<times> pyval list list)" where
  "get_issue_info issue_list sesh =
     (case get_issue_loop issue_list sesh
             \<lparr>issue_index = 0, isPR = 0, issue_context_list = [], issue_metalist = []\<rparr> of
        Inl e \<Rightarrow> Inl e
      | Inr (sesh', st) \<Rightarrow> Inr (sesh', issue_metalist st))"

subsection \<open>get_paginated_lists\<close>

text \<open>
  What the service holds for the repository named on the command line: the pull
  requests against master and the closed issues, both in creation order.
\<close>

record repository =
  pulls :: "pull_request list"
  closed_issues :: "issue list"

text \<open>
  \<^verbatim>\<open>session.get_repo\<close> is a request; \<^verbatim>\<open>get_pulls\<close> and \<^verbatim>\<open>get_issues\<close>
  only build the paginated lists. A throttled request is retried after the sleep.
\<close>

function get_paginated_lists :: "repository \<Rightarrow> string \<Rightarrow> session
                                  \<Rightarrow> session \<times> issue list \<times> pull_request list" where
  "get_paginated_lists repo_obj output_type sesh =
     (let (limited, sesh') = request sesh
      in if limited then get_paginated_lists repo_obj output_type sesh'
         else (let pr_list = pulls repo_obj;
                   issues_list = (if output_type = ''pr'' then closed_issues repo_obj else [])
               in (sesh', issues_list, pr_list)))"
  by pat_completeness auto

subsection \<open>write_csv_output\<close>

text \<open>
  The body of the aggregation loop up to \<^verbatim>\<open>writer.writerow\<close>: the row for one
  index. Every read is the indexing of a Python list.
\<close>

definition output_row :: "string \<Rightarrow> pyval list list \<Rightarrow> pyval list list \<Rightarrow> pyval list list
                          \<Rightarrow> nat \<Rightarrow> exn + pyval list" where
  "output_row output_type commit_info_metalist issue_info_metalist pr_info_metalist
              aggregation_index =
     bind (getitem commit_info_metalist aggregation_index) (\<lambda>cur_commit.
     bind (getitem cur_commit 0) (\<lambda>commit_author.
     bind (getitem cur_commit 1) (\<lambda>commit_message.
     bind (getitem pr_info_metalist aggregation_index) (\<lambda>cur_pr.
     bind (getitem cur_pr 0) (\<lambda>pr_num.
     if output_type = ''pr''
     then
       bind (getitem issue_info_metalist aggregation_index) (\<lambda>cur_issue.
       bind (getitem cur_issue 0) (\<lambda>issue_closed_date.
       bind (getitem cur_issue 1) (\<lambda>issue_author.
       bind (getitem cur_issue 2) (\<lambda>issue_title.
       bind (getitem cur_issue 3) (\<lambda>issue_body.
       bind (getitem cur_issue 4) (\<lambda>issue_comments.
       bind (getitem cur_issue 5) (\<lambda>isPR.
       bind (getitem cur_commit 2) (\<lambda>commit_date.
       bind (getitem cur_pr 1) (\<lambda>pr_author.
       bind (getitem cur_pr 2) (\<lambda>pr_body.
       bind (getitem cur_pr 3) (\<lambda>pr_closed_date.
       bind (getitem cur_pr 4) (\<lambda>pr_comments.
       bind (getitem cur_pr 5) (\<lambda>pr_title.
         Inr [pr_num, issue_closed_date, issue_author,
              issue_title, issue_body, pr_closed_date,
              pr_title, pr_body, pr_comments,
              issue_comments, pr_author, commit_author,
              commit_date, commit_message, isPR])))))))))))))
     else
       bind (getitem cur_commit 2) (\<lambda>commit_committer.
       bind (getitem cur_commit 3) (\<lambda>commit_SHA.
       bind (getitem cur_commit 4) (\<lambda>commit_file_list.
       bind (getitem cur_commit 5) (\<lambda>commit_patch_text.
       bind (getitem cur_commit 6) (\<lambda>commit_adds.
       bind (getitem cur_commit 7) (\<lambda>commit_rms.
       bind (getitem cur_commit 8) (\<lambda>commit_status.
       bind (getitem cur_commit 9) (\<lambda>commit_changes.
         Inr [commit_author, commit_committer, pr_num,
              commit_SHA, commit_message, commit_file_list,
              commit_patch_text, commit_adds, commit_rms,
              commit_status, commit_changes])))))))))))))"

text \<open>
  The loop \<^verbatim>\<open>while aggregation_index < RATE_LIMIT\<close>. \<open>csvfile\<close> is the list of
  the rows written so far, each row the list of its fields; an exception leaves the
  file as it is at that moment.
\<close>

function aggregate :: "string \<Rightarrow> pyval list list \<Rightarrow> pyval list list \<Rightarrow> pyval list list
                        \<Rightarrow> nat \<Rightarrow> pyval list list \<Rightarrow> pyval list list \<times> exn option" where
  "aggregate output_type commit_info_metalist issue_info_metalist pr_info_metalist
             aggregation_index csvfile =
     (if aggregation_index < RATE_LIMIT
      then (case output_row output_type commit_info_metalist issue_info_metalist
                   pr_info_metalist aggregation_index of
              Inl e \<Rightarrow> (csvfile, Some e)
            | Inr row \<Rightarrow>
                aggregate output_type commit_info_metalist issue_info_metalist
                  pr_info_metalist (aggregation_index + 1) (csvfile @ [row]))
      else (csvfile, None))"
  by pat_completeness auto

text \<open>
  The result is the content of the output file and the exception that ended the run,
  if one did. The file is opened only after the three extractions, so a run that fails
  in one of them writes nothing. The rows are kept as lists of fields; how
  \<^verbatim>\<open>csv.writer\<close> renders a field is not part of the model.
\<close>

definition write_csv_output :: "session \<Rightarrow> string \<Rightarrow> issue list \<times> pull_request list
                                \<Rightarrow> pyval list list \<times> exn option" where
  "write_csv_output github_sesh output_type list_tuple =
     (let (issues_list, pr_list) = list_tuple;
          label_cols = COMMIT_COL_NAMES
      in case get_PR_info pr_list github_sesh output_type of
           Inl e \<Rightarrow> ([], Some e)
         | Inr (sesh1, pr_info_metalist, commits_paginated_list) \<Rightarrow>
             (case get_commit_info commits_paginated_list sesh1 output_type of
                Inl e \<Rightarrow> ([], Some e)
              | Inr (sesh2, commit_info_metalist) \<Rightarrow>
                  (case (if output_type = ''pr''
                         then (case get_issue_info issues_list sesh2 of
                                 Inl e \<Rightarrow> Inl e
                               | Inr (sesh3, issue_info_metalist) \<Rightarrow>
                                   Inr (PR_COL_NAMES, issue_info_metalist))
                         else Inr (label_cols, [])) of
                     Inl e \<Rightarrow> ([], Some e)
                   | Inr (label_cols, issue_info_metalist) \<Rightarrow>
                       aggregate output_type commit_info_metalist issue_info_metalist
                         pr_info_metalist 0 [map PyStr label_cols])))"

subsection \<open>read_user_info and main\<close>

text \<open>
  \<open>userinfo_list\<close> is what \<^verbatim>\<open>readlines()\<close> returns for the file: its lines, each
  with its line feed.
\<close>

definition read_user_info :: "string list \<Rightarrow> string list" where
  "read_user_info userinfo_list =
     fold (\<lambda>v parsed_userinfo_list.
             (let newLine_stripped_value = strip_chars [CHR 0x0A] v;
                  space_stripped_value = strip newLine_stripped_value
              in if length space_stripped_value > 0
                 then parsed_userinfo_list @ [space_stripped_value]
                 else parsed_userinfo_list))
          userinfo_list []"

text \<open>The command line as \<^verbatim>\<open>argparse\<close> has parsed it.\<close>

record CLI_args =
  pr :: bool
  commit :: bool
  repo_name :: string
  auth_file :: string
  output_file_name :: string

definition get_CLI_args :: "CLI_args \<Rightarrow> string \<times> string \<times> string \<times> string" where
  "get_CLI_args args =
     (let output_type = ''commit'';
          output_type = (if pr args then ''pr'' else output_type)
      in (repo_name args, auth_file args, output_file_name args, output_type))"

text \<open>
  The world around a run: the lines of the file named by \<open>auth_file\<close>, the
  repository that the service returns for \<open>repo_name\<close>, and the quota schedule.
\<close>

record world =
  auth_lines :: "string list"
  remote_repo :: repository
  quota :: "bool list"

text \<open>
  \<^verbatim>\<open>main\<close> returns nothing; the model returns what the run leaves behind: the
  string the session was authenticated with, the content of the output file and the
  exception that ended the run, if any.
\<close>

definition main :: "CLI_args \<Rightarrow> world \<Rightarrow> string option \<times> pyval list list \<times> exn option" where
  "main args w =
     (let (repo_str, auth_file, output_file_name, output_type) = get_CLI_args args;
          userauth_list = read_user_info (auth_lines w)
      in case getitem userauth_list 0 of
           Inl e \<Rightarrow> (None, [], Some e)
         | Inr tok \<Rightarrow>
             (let github_sesh = \<lparr>login_or_token = tok, throttle = quota w\<rparr>;
                  (sesh1, paged_list_tuple) =
                     get_paginated_lists (remote_repo w) output_type github_sesh;
                  (csvfile, raised) = write_csv_output sesh1 output_type paged_list_tuple
              in (Some (login_or_token sesh1), csvfile, raised)))"

section \<open>Example data\<close>

text \<open>
  A small repository for the concrete runs below: five pull requests, of which the
  second, fourth and fifth have no commits, and five closed issues, of which only the
  first is linked to a pull request.
\<close>

definition t0 :: datetime where
  "t0 = \<lparr>year = 2020, month = 11, day = 3, hour = 14, minute = 5, second = 9\<rparr>"

definition file_a :: gh_file where
  "file_a = \<lparr>f_filename = ''a.py'', f_additions = 3, f_changes = 4, f_deletions = 1,
             f_patch = Some ''@@'', f_status = ''modified''\<rparr>"

definition commit_by :: "string \<Rightarrow> commit" where
  "commit_by who = \<lparr>c_author_name = who, c_author_date = t0, c_committer_name = who,
                    c_message = ''msg'', c_sha = ''abc'', c_files = [file_a]\<rparr>"

definition pull_of :: "int \<Rightarrow> int \<Rightarrow> commit list \<Rightarrow> pull_request" where
  "pull_of n k cs = \<lparr>p_number = n, p_user_login = ''dev'',
                 p_body = Some (''line1'' @ [CHR 0x0A] @ ''line2''),
                 p_closed_at = Some t0, p_comments = k, p_title = ''title'', p_commits = cs\<rparr>"

definition issue_of :: "int \<Rightarrow> string option \<Rightarrow> issue" where
  "issue_of k link = \<lparr>i_user_name = Some ''rep'',
                       i_body = Some (''line1'' @ [CHR 0x0A] @ ''line2''), i_comments = k,
                     i_closed_at = Some t0, i_title = ''bug'', i_pull_request = link\<rparr>"

definition sesh0 :: session where "sesh0 = \<lparr>login_or_token = ''tok'', throttle = []\<rparr>"

definition five_pulls :: "pull_request list" where
  "five_pulls = [pull_of 11 4 [commit_by ''ann'', commit_by ''bob''], pull_of 12 2 [],
                 pull_of 13 0 [commit_by ''cy''], pull_of 14 0 [], pull_of 15 7 []]"

definition five_issues :: "issue list" where
  "five_issues = [issue_of 0 (Some ''https://pulls/11''), issue_of 3 None, issue_of 0 None,
                  issue_of 12 None, issue_of 1 None]"

definition args_pr :: CLI_args where
  "args_pr = \<lparr>pr = True, commit = False, repo_name = ''owner/repo'',
              auth_file = ''auth.txt'', output_file_name = ''out.csv''\<rparr>"

definition world0 :: world where
  "world0 = \<lparr>auth_lines = [''alice'' @ [CHR 0x0A], [CHR 0x0A], ''ghp_token'' @ [CHR 0x0A]],
             remote_repo = \<lparr>pulls = five_pulls, closed_issues = five_issues\<rparr>,
             quota = []\<rparr>"

definition five_refs :: "commit_ref list" where
  "five_refs = [Commit (commit_by ''bob''), Commit (commit_by ''bob''), Commit (commit_by ''cy''),
                Commit (commit_by ''cy''), Commit (commit_by ''cy'')]"

definition no_commit_pulls :: "pull_request list" where
  "no_commit_pulls = [pull_of 21 0 [], pull_of 22 0 [], pull_of 23 0 [], pull_of 24 0 [],
                      pull_of 25 0 []]"

text \<open>A repository with four pull requests, and one with four closed issues.\<close>

definition four_pulls :: "pull_request list" where
  "four_pulls = [pull_of 31 0 [commit_by ''ann''], pull_of 32 0 [commit_by ''bob''],
                 pull_of 33 0 [commit_by ''cy''], pull_of 34 0 [commit_by ''dee'']]"

definition four_issues :: "issue list" where
  "four_issues = [issue_of 1 None, issue_of 2 None, issue_of 3 None, issue_of 4 None]"

definition args_commit :: CLI_args where
  "args_commit = \<lparr>pr = False, commit = True, repo_name = ''owner/small'',
                  auth_file = ''auth.txt'', output_file_name = ''out.csv''\<rparr>"

definition world_four :: world where
  "world_four = \<lparr>auth_lines = [''alice'' @ [CHR 0x0A], ''ghp_token'' @ [CHR 0x0A]],
                 remote_repo = \<lparr>pulls = four_pulls, closed_issues = five_issues\<rparr>,
                 quota = []\<rparr>"

definition pr_locals0 :: pr_locals where
  "pr_locals0 = \<lparr>commits_list = [], pr_index = 0, most_recent_commit = Placeholder sentinel,
                 pr_info_list = [], pr_metalist = []\<rparr>"

definition issue_locals0 :: issue_locals where
  "issue_locals0 = \<lparr>issue_index = 0, isPR = 0, issue_context_list = [], issue_metalist = []\<rparr>"

section \<open>Termination of the loops\<close>

text \<open>
  A request never lengthens the schedule, and a throttled one shortens it: the
  measure that makes every retry loop terminate.
\<close>

lemma request_le:
  "request sesh = (b, sesh') \<Longrightarrow> length (throttle sesh') \<le> length (throttle sesh)"
  by (auto simp: request_def split: list.splits)

lemma request_limited:
  "request sesh = (True, sesh') \<Longrightarrow> length (throttle sesh') < length (throttle sesh)"
  by (auto simp: request_def split: list.splits)

lemma paged_getitem_le:
  "paged_getitem sesh paged i = (sesh', r)
   \<Longrightarrow> length (throttle sesh') \<le> length (throttle sesh)"
  by (auto simp: paged_getitem_def Let_def split: prod.splits if_splits dest: request_le)

lemma paged_getitem_limited:
  "paged_getitem sesh paged i = (sesh', Inl RateLimitExceededException)
   \<Longrightarrow> length (throttle sesh') < length (throttle sesh)"
  by (auto simp: paged_getitem_def getitem_def Let_def split: prod.splits if_splits
           dest: request_limited)

lemma totalCount_le:
  "totalCount sesh paged = (sesh', r)
   \<Longrightarrow> length (throttle sesh') \<le> length (throttle sesh)"
  by (auto simp: totalCount_def Let_def split: prod.splits if_splits dest: request_le)

lemma totalCount_limited:
  "totalCount sesh paged = (sesh', Inl e)
   \<Longrightarrow> length (throttle sesh') < length (throttle sesh)"
  by (auto simp: totalCount_def Let_def split: prod.splits if_splits dest: request_limited)

lemma files_le:
  "files sesh c = (sesh', r) \<Longrightarrow> length (throttle sesh') \<le> length (throttle sesh)"
  by (auto simp: files_def Let_def split: prod.splits if_splits dest: request_le)

lemma files_limited:
  "files sesh c = (sesh', Inl e) \<Longrightarrow> length (throttle sesh') < length (throttle sesh)"
  by (auto simp: files_def Let_def split: prod.splits if_splits dest: request_limited)

lemma pr_type_fields_exn: "pr_type_fields p = Inl e \<Longrightarrow> e = AttributeError"
  by (auto simp: pr_type_fields_def bind_def closed_date_str_def Let_def
           split: option.splits sum.splits)

lemma pr_try_None:
  "pr_try output_type pr_list sesh st = (sesh', st', None)
   \<Longrightarrow> pr_index st' = Suc (pr_index st) \<and> length (throttle sesh') \<le> length (throttle sesh)"
  unfolding pr_try_def Let_def
  by (auto split: prod.splits sum.splits if_splits simp: bind_def
           dest!: paged_getitem_le totalCount_le)

lemma pr_try_limited:
  "pr_try output_type pr_list sesh st = (sesh', st', Some RateLimitExceededException)
   \<Longrightarrow> pr_index st' = pr_index st \<and> length (throttle sesh') < length (throttle sesh)"
  unfolding pr_try_def Let_def
  by (auto split: prod.splits sum.splits if_splits simp: bind_def
           dest!: paged_getitem_le totalCount_le paged_getitem_limited totalCount_limited
                  pr_type_fields_exn)

termination get_PR_loop
  apply (relation "measure (\<lambda>(output_type, pr_list, sesh, st).
                     length (throttle sesh) + (RATE_LIMIT - pr_index st))")
    apply simp
   apply (auto dest!: pr_try_None pr_try_limited dest: sym)
  done

lemma commit_branch_None:
  "commit_branch output_type c sesh st = (sesh', st', None)
   \<Longrightarrow> commit_list_index st' = commit_list_index st \<and>
       length (throttle sesh') \<le> length (throttle sesh)"
  unfolding commit_branch_def Let_def
  by (auto split: prod.splits sum.splits if_splits dest!: files_le)

lemma commit_branch_limited:
  "commit_branch output_type c sesh st = (sesh', st', Some e)
   \<Longrightarrow> commit_list_index st' = commit_list_index st \<and>
       length (throttle sesh') < length (throttle sesh)"
  unfolding commit_branch_def Let_def
  by (auto split: prod.splits sum.splits if_splits dest!: files_limited)

lemma commit_try_None:
  "commit_try output_type commit_list sesh st = (sesh', st', None)
   \<Longrightarrow> commit_list_index st' = Suc (commit_list_index st) \<and>
       length (throttle sesh') \<le> length (throttle sesh)"
  unfolding commit_try_def
  by (auto split: prod.splits sum.splits if_splits option.splits commit_ref.splits
           dest!: commit_branch_None)

lemma commit_try_limited:
  "commit_try output_type commit_list sesh st = (sesh', st', Some RateLimitExceededException)
   \<Longrightarrow> commit_list_index st' = commit_list_index st \<and>
       length (throttle sesh') < length (throttle sesh)"
  unfolding commit_try_def
  by (auto split: prod.splits sum.splits if_splits option.splits commit_ref.splits
           simp: getitem_def dest!: commit_branch_limited)

termination get_commit_loop
  apply (relation "measure (\<lambda>(output_type, commit_list, sesh, st).
                     length (throttle sesh) + (RATE_LIMIT - commit_list_index st))")
    apply simp
   apply (auto dest!: commit_try_None commit_try_limited dest: sym)
  done

lemma issue_try_None:
  "issue_try issue_list sesh st = (sesh', st', None)
   \<Longrightarrow> issue_index st' = Suc (issue_index st) \<and>
       length (throttle sesh') \<le> length (throttle sesh)"
  unfolding issue_try_def Let_def
  by (auto split: prod.splits sum.splits if_splits dest!: paged_getitem_le)

lemma issue_try_limited:
  "issue_try issue_list sesh st = (sesh', st', Some RateLimitExceededException)
   \<Longrightarrow> issue_index st' = issue_index st \<and>
       length (throttle sesh') < length (throttle sesh)"
  unfolding issue_try_def Let_def
  by (auto split: prod.splits sum.splits if_splits option.splits
           simp: closed_date_str_def dest!: paged_getitem_limited)

termination get_issue_loop
  apply (relation "measure (\<lambda>(issue_list, sesh, st).
                     length (throttle sesh) + (RATE_LIMIT - issue_index st))")
    apply simp
   apply (auto dest!: issue_try_None issue_try_limited dest: sym)
  done

termination get_paginated_lists
  apply (relation "measure (\<lambda>(repo_obj, output_type, sesh). length (throttle sesh))")
   apply simp
  apply (auto dest: request_limited sym)
  done

declare get_paginated_lists.simps [simp del]

termination aggregate
  by (relation "measure (\<lambda>(output_type, commit_info_metalist, issue_info_metalist,
                           pr_info_metalist, aggregation_index, csvfile).
                  RATE_LIMIT - aggregation_index)") auto

section \<open>Properties\<close>

subsection \<open>Decimal strings\<close>

lemma of_char_digit_char: "d < 10 \<Longrightarrow> (of_char (digit_char d) :: nat) = 48 + d"
  by (simp add: digit_char_def)

lemma digits_not_Nil: "digits n \<noteq> []"
  by (subst digits.simps) simp

lemma digit_char_zero:
  assumes "d < 10"
  shows "digit_char d = CHR ''0'' \<longleftrightarrow> d = 0"
proof
  assume "digit_char d = CHR ''0''"
  then have "(of_char (digit_char d) :: nat) = of_char CHR ''0''" by simp
  with assms show "d = 0" by (simp add: of_char_digit_char)
next
  have "digit_char 0 = CHR ''0''" by code_simp
  moreover assume "d = 0"
  ultimately show "digit_char d = CHR ''0''" by simp
qed

lemma digit_char_not_space:
  assumes "d < 10"
  shows "digit_char d \<noteq> CHR '' ''"
proof
  assume "digit_char d = CHR '' ''"
  then have "(of_char (digit_char d) :: nat) = of_char CHR '' ''" by simp
  with assms show False by (simp add: of_char_digit_char)
qed

text \<open>Only the number zero is written '0'.\<close>

lemma digits_eq_zero: "digits n = ''0'' \<longleftrightarrow> n = 0"
proof (cases "n < 10")
  case True
  then show ?thesis by (subst digits.simps) (simp add: digit_char_zero)
next
  case False
  have "length (digits n) \<ge> 2"
    using False digits_not_Nil[of "n div 10"]
    by (subst digits.simps) (cases "digits (n div 10)"; simp)
  with False show ?thesis by auto
qed

lemma str_int_eq_zero: "str_int n = ''0'' \<longleftrightarrow> n = 0"
  by (auto simp: str_int_def digits_eq_zero)

lemma digits_no_space: "CHR '' '' \<notin> set (digits n)"
proof (induction n rule: digits.induct)
  case (1 n)
  show ?case
    using 1 digit_char_not_space[of n] digit_char_not_space[of "n mod 10"]
    by (subst digits.simps) auto
qed

text \<open>No number is written as the special string, which starts with a space.\<close>

lemma str_int_not_sentinel: "str_int n \<noteq> sentinel"
proof
  assume "str_int n = sentinel"
  then have "CHR '' '' \<in> set (str_int n)" by (simp add: sentinel_def)
  then show False using digits_no_space by (auto simp: str_int_def split: if_splits)
qed

lemma comment_str_eq: "comment_str n = (if n = 0 then sentinel else str_int n)"
  by (simp add: comment_str_def Let_def str_int_eq_zero)

subsection \<open>What every loop leaves behind\<close>

text \<open>
  Each pass of an extractor loop either appends one entry and advances the index, or
  raises and keeps the index; so a loop that returns has run the index up to
  RATE_LIMIT.
\<close>

lemma pr_try_lists_None:
  "pr_try output_type pr_list sesh st = (sesh', st', None)
   \<Longrightarrow> length (commits_list st') = Suc (length (commits_list st)) \<and>
       length (pr_metalist st') = Suc (length (pr_metalist st))"
  unfolding pr_try_def Let_def
  by (auto split: prod.splits sum.splits if_splits simp: bind_def)

lemma pr_try_lists_limited:
  "pr_try output_type pr_list sesh st = (sesh', st', Some e)
   \<Longrightarrow> commits_list st' = commits_list st \<and>
       length (pr_metalist st) \<le> length (pr_metalist st')"
  unfolding pr_try_def Let_def
  by (auto split: prod.splits sum.splits if_splits simp: bind_def)

lemma get_PR_loop_lengths:
  "get_PR_loop output_type pr_list sesh st = Inr (sesh', st')
   \<Longrightarrow> pr_index st \<le> RATE_LIMIT
   \<Longrightarrow> length (commits_list st') = length (commits_list st) + (RATE_LIMIT - pr_index st) \<and>
       length (pr_metalist st') \<ge> length (pr_metalist st) + (RATE_LIMIT - pr_index st) \<and>
       pr_index st' = RATE_LIMIT"
proof (induction output_type pr_list sesh st rule: get_PR_loop.induct)
  case (1 output_type pr_list sesh st)
  show ?case
  proof (cases "pr_index st < RATE_LIMIT")
    case False
    with "1.prems" show ?thesis by simp
  next
    case True
    obtain s1 st1 r where t: "pr_try output_type pr_list sesh st = (s1, st1, r)"
      by (cases "pr_try output_type pr_list sesh st") auto
    show ?thesis
    proof (cases r)
      case None
      from t None True "1.prems"(1)
      have run: "get_PR_loop output_type pr_list s1 st1 = Inr (sesh', st')" by simp
      from pr_try_None t None have idx: "pr_index st1 = Suc (pr_index st)" by blast
      from pr_try_lists_None t None
      have len: "length (commits_list st1) = Suc (length (commits_list st))"
                "length (pr_metalist st1) = Suc (length (pr_metalist st))" by blast+
      from idx True have le: "pr_index st1 \<le> RATE_LIMIT" by simp
      note ih = "1.IH"(1)[OF True t[symmetric] refl None run le]
      show ?thesis using ih idx len True by (intro conjI) arith+
    next
      case (Some e)
      with t True "1.prems"(1)
      have e: "e = RateLimitExceededException"
        and run: "get_PR_loop output_type pr_list s1 st1 = Inr (sesh', st')"
        by (auto split: if_splits)
      from pr_try_limited t Some e have idx: "pr_index st1 = pr_index st" by blast
      from pr_try_lists_limited t Some
      have len: "commits_list st1 = commits_list st"
                "length (pr_metalist st) \<le> length (pr_metalist st1)" by blast+
      from idx "1.prems"(2) have le: "pr_index st1 \<le> RATE_LIMIT" by simp
      note ih = "1.IH"(2)[OF True t[symmetric] refl Some e run le]
      show ?thesis using ih idx len by (intro conjI) arith+
    qed
  qed
qed

lemma commit_branch_metalist:
  "commit_branch output_type c sesh st = (sesh', st', r)
   \<Longrightarrow> commit_info_metalist_l st' = commit_info_metalist_l st"
  unfolding commit_branch_def Let_def
  by (auto split: prod.splits sum.splits if_splits)

lemma commit_try_lists_None:
  "commit_try output_type commit_list sesh st = (sesh', st', None)
   \<Longrightarrow> length (commit_info_metalist_l st') = Suc (length (commit_info_metalist_l st))"
  unfolding commit_try_def
  by (auto split: prod.splits sum.splits if_splits option.splits commit_ref.splits
           dest!: commit_branch_metalist)

lemma commit_try_lists_limited:
  "commit_try output_type commit_list sesh st = (sesh', st', Some e)
   \<Longrightarrow> commit_info_metalist_l st' = commit_info_metalist_l st"
  unfolding commit_try_def
  by (auto split: prod.splits sum.splits if_splits option.splits commit_ref.splits
           dest!: commit_branch_metalist)

lemma get_commit_loop_lengths:
  "get_commit_loop output_type commit_list sesh st = Inr (sesh', st')
   \<Longrightarrow> commit_list_index st \<le> RATE_LIMIT
   \<Longrightarrow> length (commit_info_metalist_l st') =
         length (commit_info_metalist_l st) + (RATE_LIMIT - commit_list_index st) \<and>
       commit_list_index st' = RATE_LIMIT"
proof (induction output_type commit_list sesh st rule: get_commit_loop.induct)
  case (1 output_type commit_list sesh st)
  show ?case
  proof (cases "commit_list_index st < RATE_LIMIT")
    case False
    with "1.prems" show ?thesis by simp
  next
    case True
    obtain s1 st1 r where t: "commit_try output_type commit_list sesh st = (s1, st1, r)"
      by (cases "commit_try output_type commit_list sesh st") auto
    show ?thesis
    proof (cases r)
      case None
      from t None True "1.prems"(1)
      have run: "get_commit_loop output_type commit_list s1 st1 = Inr (sesh', st')" by simp
      from commit_try_None t None
      have idx: "commit_list_index st1 = Suc (commit_list_index st)" by blast
      from commit_try_lists_None t None
      have len: "length (commit_info_metalist_l st1) = Suc (length (commit_info_metalist_l st))"
        by blast
      from idx True have le: "commit_list_index st1 \<le> RATE_LIMIT" by simp
      note ih = "1.IH"(1)[OF True t[symmetric] refl None run le]
      show ?thesis using ih idx len True by (intro conjI) arith+
    next
      case (Some e)
      with t True "1.prems"(1)
      have e: "e = RateLimitExceededException"
        and run: "get_commit_loop output_type commit_list s1 st1 = Inr (sesh', st')"
        by (auto split: if_splits)
      from commit_try_limited t Some e
      have idx: "commit_list_index st1 = commit_list_index st" by blast
      from commit_try_lists_limited t Some
      have len: "commit_info_metalist_l st1 = commit_info_metalist_l st" by blast
      from idx "1.prems"(2) have le: "commit_list_index st1 \<le> RATE_LIMIT" by simp
      note ih = "1.IH"(2)[OF True t[symmetric] refl Some e run le]
      show ?thesis using ih idx len by (intro conjI) arith+
    qed
  qed
qed

lemma issue_try_lists_None:
  "issue_try issue_list sesh st = (sesh', st', None)
   \<Longrightarrow> length (issue_metalist st') = Suc (length (issue_metalist st))"
  unfolding issue_try_def Let_def
  by (auto split: prod.splits sum.splits if_splits)

text \<open>A pass of the issue loop that raises leaves every local as it was.\<close>

lemma issue_try_raises:
  "issue_try issue_list sesh st = (sesh', st', Some e) \<Longrightarrow> st' = st"
  unfolding issue_try_def Let_def
  by (auto split: prod.splits sum.splits if_splits)

lemma get_issue_loop_lengths:
  "get_issue_loop issue_list sesh st = Inr (sesh', st')
   \<Longrightarrow> issue_index st \<le> RATE_LIMIT
   \<Longrightarrow> length (issue_metalist st') = length (issue_metalist st) + (RATE_LIMIT - issue_index st) \<and>
       issue_index st' = RATE_LIMIT"
proof (induction issue_list sesh st rule: get_issue_loop.induct)
  case (1 issue_list sesh st)
  show ?case
  proof (cases "issue_index st < RATE_LIMIT")
    case False
    with "1.prems" show ?thesis by simp
  next
    case True
    obtain s1 st1 r where t: "issue_try issue_list sesh st = (s1, st1, r)"
      by (cases "issue_try issue_list sesh st") auto
    show ?thesis
    proof (cases r)
      case None
      from t None True "1.prems"(1)
      have run: "get_issue_loop issue_list s1 st1 = Inr (sesh', st')" by simp
      from issue_try_None t None have idx: "issue_index st1 = Suc (issue_index st)" by blast
      from issue_try_lists_None t None
      have len: "length (issue_metalist st1) = Suc (length (issue_metalist st))" by blast
      from idx True have le: "issue_index st1 \<le> RATE_LIMIT" by simp
      note ih = "1.IH"(1)[OF True t[symmetric] refl None run le]
      show ?thesis using ih idx len True by (intro conjI) arith+
    next
      case (Some e)
      with t True "1.prems"(1)
      have e: "e = RateLimitExceededException"
        and run: "get_issue_loop issue_list s1 st1 = Inr (sesh', st')"
        by (auto split: if_splits)
      from issue_try_raises t Some have st1: "st1 = st" by blast
      from "1.prems"(2) st1 have le: "issue_index st1 \<le> RATE_LIMIT" by simp
      note ih = "1.IH"(2)[OF True t[symmetric] refl Some e run le]
      show ?thesis using ih st1 by simp
    qed
  qed
qed

lemma aggregate_length:
  "aggregate output_type commit_info_metalist issue_info_metalist pr_info_metalist
             aggregation_index csvfile = (csvfile', None)
   \<Longrightarrow> aggregation_index \<le> RATE_LIMIT
   \<Longrightarrow> length csvfile' = length csvfile + (RATE_LIMIT - aggregation_index)"
proof (induction output_type commit_info_metalist issue_info_metalist pr_info_metalist
         aggregation_index csvfile rule: aggregate.induct)
  case (1 output_type commit_info_metalist issue_info_metalist pr_info_metalist
          aggregation_index csvfile)
  show ?case
  proof (cases "aggregation_index < RATE_LIMIT")
    case False
    with "1.prems" show ?thesis by simp
  next
    case True
    with "1.prems"(1) obtain row where
      row: "output_row output_type commit_info_metalist issue_info_metalist pr_info_metalist
              aggregation_index = Inr row"
      and run: "aggregate output_type commit_info_metalist issue_info_metalist pr_info_metalist
              (aggregation_index + 1) (csvfile @ [row]) = (csvfile', None)"
      by (auto split: sum.splits)
    from True have le: "aggregation_index + 1 \<le> RATE_LIMIT" by simp
    from "1.IH"[OF True row run le] True show ?thesis by simp
  qed
qed

subsection \<open>The rows of a run that ends without an exception\<close>

lemma write_csv_output_rows:
  assumes "write_csv_output sesh output_type list_tuple = (csvfile, None)"
  shows "\<exists>c i p hdr. aggregate output_type c i p 0 [hdr] = (csvfile, None)"
proof -
  obtain issues_list pr_list where lt: "list_tuple = (issues_list, pr_list)"
    by (cases list_tuple)
  show ?thesis
  proof (cases "get_PR_info pr_list sesh output_type")
    case (Inl e)
    with assms lt show ?thesis by (simp add: write_csv_output_def)
  next
    case (Inr r)
    then obtain s1 p cs where r: "get_PR_info pr_list sesh output_type = Inr (s1, p, cs)"
      by (cases r) auto
    show ?thesis
    proof (cases "get_commit_info cs s1 output_type")
      case (Inl e)
      with assms lt r show ?thesis by (simp add: write_csv_output_def)
    next
      case (Inr r2)
      then obtain s2 c where r2: "get_commit_info cs s1 output_type = Inr (s2, c)"
        by (cases r2) auto
      show ?thesis
      proof (cases "output_type = ''pr''")
        case False
        with assms lt r r2 show ?thesis by (auto simp: write_csv_output_def simp del: aggregate.simps)
      next
        case True
        show ?thesis
        proof (cases "get_issue_info issues_list s2")
          case (Inl e)
          with assms lt r r2 True show ?thesis by (simp add: write_csv_output_def)
        next
          case (Inr r3)
          then obtain s3 i where "get_issue_info issues_list s2 = Inr (s3, i)"
            by (cases r3) auto
          with assms lt r r2 True show ?thesis by (auto simp: write_csv_output_def simp del: aggregate.simps)
        qed
      qed
    qed
  qed
qed

lemma main_rows:
  assumes "main args w = (tok, csvfile, None)"
  shows "\<exists>sesh output_type list_tuple.
           write_csv_output sesh output_type list_tuple = (csvfile, None)"
proof (cases "getitem (read_user_info (auth_lines w)) 0")
  case (Inl e)
  with assms show ?thesis by (simp add: main_def get_CLI_args_def Let_def)
next
  case (Inr t)
  with assms show ?thesis
    by (auto simp: main_def get_CLI_args_def Let_def split: prod.splits)
qed

text \<open>
  C10. The fetch bound is the constant RATE_LIMIT = 5. Whatever the command line,
  the repository and the quota are: an extractor that returns has run its index up to
  5 (one commit reference, one commit fragment, one issue fragment for each index, and
  at least five PR fragments), and a run that ends without an exception has written
  the header row and exactly 5 data rows.
\<close>

theorem fetch_bound_is_five:
  "RATE_LIMIT = 5 \<and>
   (get_PR_info pr_list sesh output_type = Inr (sesh', pr_info_metalist, commits)
      \<longrightarrow> length commits = 5 \<and> length pr_info_metalist \<ge> 5) \<and>
   (get_commit_info commit_list csesh output_type = Inr (csesh', commit_info_metalist)
      \<longrightarrow> length commit_info_metalist = 5) \<and>
   (get_issue_info issue_list isesh = Inr (isesh', issue_info_metalist)
      \<longrightarrow> length issue_info_metalist = 5) \<and>
   (main args w = (tok, csvfile, None) \<longrightarrow> length csvfile = 1 + 5)"
proof (intro conjI impI)
  show five: "RATE_LIMIT = 5" by (simp add: RATE_LIMIT_def)
  {
    assume "get_PR_info pr_list sesh output_type = Inr (sesh', pr_info_metalist, commits)"
    then obtain st' where
      "get_PR_loop output_type pr_list sesh
         \<lparr>commits_list = [], pr_index = 0, most_recent_commit = Placeholder sentinel,
          pr_info_list = [], pr_metalist = []\<rparr> = Inr (sesh', st')"
      and "pr_info_metalist = pr_metalist st'" and "commits = commits_list st'"
      by (auto simp: get_PR_info_def split: sum.splits)
    with get_PR_loop_lengths[OF this(1)] five
    show "length commits = 5" and "length pr_info_metalist \<ge> 5" by simp_all
  }
  {
    assume "get_commit_info commit_list csesh output_type = Inr (csesh', commit_info_metalist)"
    then obtain st' where
      "get_commit_loop output_type commit_list csesh
             \<lparr>commit_info_list = [], commit_info_metalist_l = [], commit_list_index = 0,
              commit_author = PyStr '' =||= '', commit_message = PyStr '' =||= '',
              commit_date = PyStr '' =||= '', commit_committer = PyStr '' =||= '',
              commit_SHA = PyStr '' =||= '', file_list = PyStr '' =||= '',
              commit_patch_text = PyStr '' =||= '', commit_adds = PyStr '' =||= '',
              commit_rms = PyStr '' =||= '', quoted_commit_status_str = PyStr '' =||= '',
              commit_changes = PyStr '' =||= ''\<rparr> = Inr (csesh', st')"
      and "commit_info_metalist = commit_info_metalist_l st'"
      by (auto simp: get_commit_info_def split: sum.splits)
    with get_commit_loop_lengths[OF this(1)] five
    show "length commit_info_metalist = 5" by simp
  }
  {
    assume "get_issue_info issue_list isesh = Inr (isesh', issue_info_metalist)"
    then obtain st' where
      "get_issue_loop issue_list isesh
             \<lparr>issue_index = 0, isPR = 0, issue_context_list = [], issue_metalist = []\<rparr>
         = Inr (isesh', st')"
      and "issue_info_metalist = issue_metalist st'"
      by (auto simp: get_issue_info_def split: sum.splits)
    with get_issue_loop_lengths[OF this(1)] five
    show "length issue_info_metalist = 5" by simp
  }
  {
    assume "main args w = (tok, csvfile, None)"
    from main_rows[OF this] obtain s ot lt where
      "write_csv_output s ot lt = (csvfile, None)" by blast
    from write_csv_output_rows[OF this] obtain c i p hdr where
      "aggregate ot c i p 0 [hdr] = (csvfile, None)" by blast
    from aggregate_length[OF this] five show "length csvfile = 1 + 5" by simp
  }
qed

theorem fetch_bound_is_five_witness:
  "(case get_PR_info five_pulls sesh0 ''pr'' of
      Inl e \<Rightarrow> False
    | Inr (s, m, c) \<Rightarrow> length c = 5 \<and> length m \<ge> 5) \<and>
   (case get_commit_info five_refs sesh0 ''pr'' of
      Inl e \<Rightarrow> False
    | Inr (s, m) \<Rightarrow> length m = 5) \<and>
   (case get_issue_info five_issues sesh0 of
      Inl e \<Rightarrow> False
    | Inr (s, m) \<Rightarrow> length m = 5) \<and>
   (case main args_pr world0 of (tok, csvfile, raised) \<Rightarrow> raised = None \<and> length csvfile = 6)"
proof -
  have "\<not> isl (get_PR_info five_pulls sesh0 ''pr'')" by code_simp
  then obtain s1 m1 c1 where 1: "get_PR_info five_pulls sesh0 ''pr'' = Inr (s1, m1, c1)"
    by (cases "get_PR_info five_pulls sesh0 ''pr''") auto
  have "\<not> isl (get_commit_info five_refs sesh0 ''pr'')" by code_simp
  then obtain s2 m2 where 2: "get_commit_info five_refs sesh0 ''pr'' = Inr (s2, m2)"
    by (cases "get_commit_info five_refs sesh0 ''pr''") auto
  have "\<not> isl (get_issue_info five_issues sesh0)" by code_simp
  then obtain s3 m3 where 3: "get_issue_info five_issues sesh0 = Inr (s3, m3)"
    by (cases "get_issue_info five_issues sesh0") auto
  have "snd (snd (main args_pr world0)) = None" by code_simp
  then obtain tok csvfile where 4: "main args_pr world0 = (tok, csvfile, None)"
    by (cases "main args_pr world0") auto
  from fetch_bound_is_five[of five_pulls sesh0 "''pr''" s1 m1 c1 five_refs sesh0 s2 m2
         five_issues sesh0 s3 m3 args_pr world0 tok csvfile] 1 2 3 4
  show ?thesis by simp
qed

subsection \<open>Comment counts\<close>

text \<open>
  C8. Comment-count sentinel law. The fragment that a pass of the PR loop (output
  type "pr") or of the issue loop appends for an item holds, at position 4, the special
  string when the item's comment count is 0 and the decimal string of the count
  otherwise. By \<open>str_int_not_sentinel\<close> the two cases never coincide.
\<close>

theorem comment_count_sentinel_law:
  "(pr_try ''pr'' pr_list sesh st = (sesh', st', None) \<longrightarrow>
      getitem (last (pr_metalist st')) 4 =
        Inr (PyStr (if p_comments (pr_list ! pr_index st) = 0 then sentinel
                    else str_int (p_comments (pr_list ! pr_index st))))) \<and>
   (issue_try issue_list isesh ist = (isesh', ist', None) \<longrightarrow>
      getitem (last (issue_metalist ist')) 4 =
        Inr (PyStr (if i_comments (issue_list ! issue_index ist) = 0 then sentinel
                    else str_int (i_comments (issue_list ! issue_index ist)))))"
proof (intro conjI impI)
  assume "pr_try ''pr'' pr_list sesh st = (sesh', st', None)"
  then show "getitem (last (pr_metalist st')) 4 =
        Inr (PyStr (if p_comments (pr_list ! pr_index st) = 0 then sentinel
                    else str_int (p_comments (pr_list ! pr_index st))))"
    unfolding pr_try_def Let_def
    by (auto split: prod.splits sum.splits if_splits option.splits
        simp: bind_def paged_getitem_def getitem_def pr_type_fields_def closed_date_str_def
              comment_str_eq)
next
  assume "issue_try issue_list isesh ist = (isesh', ist', None)"
  then show "getitem (last (issue_metalist ist')) 4 =
        Inr (PyStr (if i_comments (issue_list ! issue_index ist) = 0 then sentinel
                    else str_int (i_comments (issue_list ! issue_index ist))))"
    unfolding issue_try_def Let_def
    by (auto split: prod.splits sum.splits if_splits option.splits
        simp: paged_getitem_def getitem_def closed_date_str_def str_int_eq_zero sentinel_def)
qed

theorem comment_count_sentinel_law_witness:
  "snd (snd (pr_try ''pr'' [pull_of 11 0 []] sesh0 pr_locals0)) = None \<and>
   getitem (last (pr_metalist (fst (snd (pr_try ''pr'' [pull_of 11 0 []] sesh0 pr_locals0))))) 4
     = Inr (PyStr sentinel) \<and>
   snd (snd (issue_try [issue_of 3 None] sesh0 issue_locals0)) = None \<and>
   getitem (last (issue_metalist (fst (snd (issue_try [issue_of 3 None] sesh0 issue_locals0))))) 4
     = Inr (PyStr ''3'')"
proof -
  have 1: "snd (snd (pr_try ''pr'' [pull_of 11 0 []] sesh0 pr_locals0)) = None" by code_simp
  then obtain s1 st1 where p: "pr_try ''pr'' [pull_of 11 0 []] sesh0 pr_locals0 = (s1, st1, None)"
    by (cases "pr_try ''pr'' [pull_of 11 0 []] sesh0 pr_locals0") auto
  have 2: "snd (snd (issue_try [issue_of 3 None] sesh0 issue_locals0)) = None" by code_simp
  then obtain s2 st2 where i: "issue_try [issue_of 3 None] sesh0 issue_locals0 = (s2, st2, None)"
    by (cases "issue_try [issue_of 3 None] sesh0 issue_locals0") auto
  have 3: "str_int 3 = ''3''" by code_simp
  from comment_count_sentinel_law[of "[pull_of 11 0 []]" sesh0 pr_locals0 s1 st1
         "[issue_of 3 None]" sesh0 issue_locals0 s2 st2] p i 3
  show ?thesis by (simp add: pull_of_def issue_of_def pr_locals0_def issue_locals0_def)
qed

subsection \<open>The exceptions of the aggregation loop\<close>

text \<open>
  The aggregation loop reads every fragment by list indexing and has no check of its
  own, so the only exception it can raise is \<open>IndexError\<close>.
\<close>

lemma roi_getitem: "raises_only_IndexError (getitem xs i)"
  by (simp add: raises_only_IndexError_def getitem_def)

lemma roi_Inr: "raises_only_IndexError (Inr x)"
  by (simp add: raises_only_IndexError_def)

lemma roi_bind:
  "raises_only_IndexError m \<Longrightarrow> (\<And>x. raises_only_IndexError (f x))
   \<Longrightarrow> raises_only_IndexError (bind m f)"
  by (cases m) (auto simp: raises_only_IndexError_def bind_def)

lemma roi_if:
  "raises_only_IndexError a \<Longrightarrow> raises_only_IndexError b
   \<Longrightarrow> raises_only_IndexError (if c then a else b)"
  by simp

lemma roi_output_row:
  "raises_only_IndexError
     (output_row output_type commit_info_metalist issue_info_metalist pr_info_metalist
        aggregation_index)"
  unfolding output_row_def
  by (intro roi_bind roi_if roi_getitem roi_Inr)

lemma output_row_IndexError:
  "output_row output_type commit_info_metalist issue_info_metalist pr_info_metalist
     aggregation_index = Inl e \<Longrightarrow> e = IndexError"
  using roi_output_row[of output_type commit_info_metalist issue_info_metalist
          pr_info_metalist aggregation_index]
  by (simp add: raises_only_IndexError_def)

subsection \<open>What a pass of a loop does\<close>

text \<open>
  An exception at \<^verbatim>\<open>pr_list[index]\<close> or \<^verbatim>\<open>issue_list[index]\<close> leaves the locals
  of the loop untouched.
\<close>

lemma pr_try_limited_at_item:
  "request sesh = (True, sesh')
   \<Longrightarrow> pr_try output_type pr_list sesh st = (sesh', st, Some RateLimitExceededException)"
  by (simp add: pr_try_def paged_getitem_def)

text \<open>
  The reference that a pass of the PR loop appends: the last commit of the PR, or,
  for a PR without commits, whatever \<open>most_recent_commit\<close> held before the pass.
\<close>

lemma nat_int_pred: "nat (int n - 1) = n - 1"
  by linarith

lemma pr_try_commit_ref:
  assumes "pr_try output_type pr_list sesh st = (sesh', st', None)"
  shows "last (commits_list st') =
           (if p_commits (pr_list ! pr_index st) = [] then most_recent_commit st
            else Commit (last (p_commits (pr_list ! pr_index st))))"
  using assms unfolding pr_try_def Let_def
  by (auto split: prod.splits sum.splits if_splits
           simp: bind_def paged_getitem_def totalCount_def getitem_def last_conv_nth nat_int_pred)

text \<open>
  The flag that a pass of the issue loop stores: 1 for a linked issue, and for any
  other issue the value the flag had before the pass.
\<close>

lemma issue_try_isPR:
  assumes "issue_try issue_list sesh st = (sesh', st', None)"
  shows "isPR st' = (if i_pull_request (issue_list ! issue_index st) \<noteq> None then 1 else isPR st) \<and>
         getitem (last (issue_metalist st')) 5 = Inr (PyInt (isPR st'))"
  using assms unfolding issue_try_def Let_def
  by (auto split: prod.splits sum.splits if_splits simp: paged_getitem_def getitem_def)

text \<open>
  The issue loop appends at the end of its pass only, so its result does not depend
  on the quota schedule.
\<close>

lemma issue_try_throttle:
  assumes "request sesh = (False, sesh')"
  shows "issue_try issue_list sesh st =
           (sesh', snd (issue_try issue_list (sesh\<lparr>throttle := []\<rparr>) st))"
  using assms unfolding issue_try_def Let_def
  by (auto split: prod.splits sum.splits if_splits list.splits
           simp: paged_getitem_def request_def)

lemma issue_try_limited_at_item:
  "request sesh = (True, sesh')
   \<Longrightarrow> issue_try issue_list sesh st = (sesh', st, Some RateLimitExceededException)"
  by (simp add: issue_try_def paged_getitem_def)

lemma request_throttle: "request sesh = (b, sesh') \<Longrightarrow> sesh'\<lparr>throttle := []\<rparr> = sesh\<lparr>throttle := []\<rparr>"
  by (auto simp: request_def split: list.splits)

lemma request_empty: "request (sesh\<lparr>throttle := []\<rparr>) = (False, sesh\<lparr>throttle := []\<rparr>)"
  by (simp add: request_def)

lemma get_issue_loop_throttle:
  "map_sum id snd (get_issue_loop issue_list sesh st) =
   map_sum id snd (get_issue_loop issue_list (sesh\<lparr>throttle := []\<rparr>) st)"
proof (induction issue_list sesh st rule: get_issue_loop.induct)
  case (1 issue_list sesh st)
  let ?s0 = "sesh\<lparr>throttle := []\<rparr>"
  show ?case
  proof (cases "issue_index st < RATE_LIMIT")
    case False
    then show ?thesis by (subst (1 2) get_issue_loop.simps) (simp del: get_issue_loop.simps)
  next
    case True
    obtain b sesh' where r: "request sesh = (b, sesh')" by (cases "request sesh")
    have s0: "sesh'\<lparr>throttle := []\<rparr> = ?s0" using request_throttle[OF r] .
    show ?thesis
    proof (cases b)
      case True
      with r have t: "issue_try issue_list sesh st = (sesh', st, Some RateLimitExceededException)"
        by (simp add: issue_try_limited_at_item)
      have "map_sum id snd (get_issue_loop issue_list sesh' st) =
            map_sum id snd (get_issue_loop issue_list ?s0 st)"
        using "1.IH"(2)[OF \<open>issue_index st < RATE_LIMIT\<close> t[symmetric] refl refl refl]
        unfolding s0 .
      moreover have "get_issue_loop issue_list sesh st = get_issue_loop issue_list sesh' st"
        using t \<open>issue_index st < RATE_LIMIT\<close> by (subst get_issue_loop.simps) (simp del: get_issue_loop.simps)
      ultimately show ?thesis by (simp only:)
    next
      case False
      obtain s1 st1 res where t0: "issue_try issue_list ?s0 st = (s1, st1, res)"
        by (cases "issue_try issue_list ?s0 st") auto
      from issue_try_throttle[of ?s0 ?s0 issue_list st] request_empty[of sesh] t0
      have s1: "s1 = ?s0" by simp
      from False r issue_try_throttle[of sesh sesh' issue_list st] t0
      have t: "issue_try issue_list sesh st = (sesh', st1, res)" by simp
      show ?thesis
      proof (cases res)
        case None
        have "map_sum id snd (get_issue_loop issue_list sesh' st1) =
              map_sum id snd (get_issue_loop issue_list ?s0 st1)"
          using "1.IH"(1)[OF True t[symmetric] refl None] unfolding s0 .
        moreover have "get_issue_loop issue_list sesh st = get_issue_loop issue_list sesh' st1"
          using t None True by (subst get_issue_loop.simps) (simp del: get_issue_loop.simps)
        moreover have "get_issue_loop issue_list ?s0 st = get_issue_loop issue_list ?s0 st1"
          using t0 s1 None True by (subst get_issue_loop.simps) (simp del: get_issue_loop.simps)
        ultimately show ?thesis by (simp only:)
      next
        case (Some e)
        from t Some False r have ne: "e \<noteq> RateLimitExceededException"
          unfolding issue_try_def Let_def
          by (auto split: prod.splits sum.splits if_splits option.splits
                   simp: paged_getitem_def getitem_def closed_date_str_def)
        have "get_issue_loop issue_list sesh st = Inl e"
          using t Some True ne by (subst get_issue_loop.simps) (simp del: get_issue_loop.simps)
        moreover have "get_issue_loop issue_list ?s0 st = Inl e"
          using t0 s1 Some True ne by (subst get_issue_loop.simps) (simp del: get_issue_loop.simps)
        ultimately show ?thesis by (simp only:)
      qed
    qed
  qed
qed

lemma get_issue_info_throttle:
  "map_sum id snd (get_issue_info issue_list sesh) =
   map_sum id snd (get_issue_info issue_list (sesh\<lparr>throttle := []\<rparr>))"
proof -
  let ?st = "\<lparr>issue_index = 0, isPR = 0, issue_context_list = [], issue_metalist = []\<rparr>"
  have "map_sum id (issue_metalist \<circ> snd) (get_issue_loop issue_list sesh ?st) =
        map_sum id (issue_metalist \<circ> snd) (get_issue_loop issue_list (sesh\<lparr>throttle := []\<rparr>) ?st)"
    using get_issue_loop_throttle[of issue_list sesh ?st]
    by (cases "get_issue_loop issue_list sesh ?st";
        cases "get_issue_loop issue_list (sesh\<lparr>throttle := []\<rparr>) ?st")
       (auto simp del: get_issue_loop.simps)
  then show ?thesis
    by (auto simp: get_issue_info_def simp del: get_issue_loop.simps split: sum.splits)
qed

subsection \<open>Sources shorter than the fetch bound\<close>

text \<open>
  Neither extractor checks the length of its source. A pass of the PR or issue loop
  ends without an exception only for an index inside the source, and the exceptions
  it can raise are the rate limit, \<open>IndexError\<close> at an index outside the source and
  \<open>AttributeError\<close> for an item that is not closed.
\<close>

lemma pr_try_item:
  "pr_try output_type pr_list sesh st = (sesh', st', None) \<Longrightarrow> pr_index st < length pr_list"
  unfolding pr_try_def Let_def
  by (auto split: prod.splits sum.splits if_splits simp: bind_def paged_getitem_def getitem_def)

lemma pr_try_raises:
  "pr_try output_type pr_list sesh st = (sesh', st', Some e)
   \<Longrightarrow> e = RateLimitExceededException \<or>
       (e = IndexError \<and> length pr_list \<le> pr_index st) \<or>
       (e = AttributeError \<and> output_type = ''pr'' \<and> pr_index st < length pr_list \<and>
        p_closed_at (pr_list ! pr_index st) = None)"
  unfolding pr_try_def Let_def
  by (auto split: prod.splits sum.splits if_splits option.splits
           simp: bind_def paged_getitem_def getitem_def totalCount_def pr_type_fields_def
                 closed_date_str_def nat_int_pred)

lemma issue_try_item:
  "issue_try issue_list sesh st = (sesh', st', None) \<Longrightarrow> issue_index st < length issue_list"
  unfolding issue_try_def Let_def
  by (auto split: prod.splits sum.splits if_splits simp: paged_getitem_def getitem_def)

lemma issue_try_raises_which:
  "issue_try issue_list sesh st = (sesh', st', Some e)
   \<Longrightarrow> e = RateLimitExceededException \<or>
       (e = IndexError \<and> length issue_list \<le> issue_index st) \<or>
       (e = AttributeError \<and> issue_index st < length issue_list \<and>
        i_closed_at (issue_list ! issue_index st) = None)"
  unfolding issue_try_def Let_def
  by (auto split: prod.splits sum.splits if_splits option.splits
           simp: paged_getitem_def getitem_def closed_date_str_def)


lemma get_PR_loop_short:
  assumes "length pr_list < RATE_LIMIT"
      and "pr_index st \<le> length pr_list"
      and "output_type = ''pr'' \<longrightarrow> (\<forall>p \<in> set pr_list. p_closed_at p \<noteq> None)"
  shows "get_PR_loop output_type pr_list sesh st = Inl IndexError"
  using assms
proof (induction output_type pr_list sesh st rule: get_PR_loop.induct)
  case (1 output_type pr_list sesh st)
  from "1.prems" have lt: "pr_index st < RATE_LIMIT" by simp
  obtain s1 st1 r where t: "pr_try output_type pr_list sesh st = (s1, st1, r)"
    by (cases "pr_try output_type pr_list sesh st") auto
  show ?case
  proof (cases r)
    case None
    from pr_try_item t None have "pr_index st < length pr_list" by blast
    moreover from pr_try_None t None have "pr_index st1 = Suc (pr_index st)" by blast
    ultimately have le: "pr_index st1 \<le> length pr_list" by simp
    from "1.IH"(1)[OF lt t[symmetric] refl None "1.prems"(1) le "1.prems"(3)] t None lt
    show ?thesis by (subst get_PR_loop.simps) (simp del: get_PR_loop.simps)
  next
    case (Some e)
    show ?thesis
    proof (cases "e = RateLimitExceededException")
      case True
      from pr_try_limited t Some True have "pr_index st1 = pr_index st" by blast
      with "1.prems"(2) have le: "pr_index st1 \<le> length pr_list" by simp
      from "1.IH"(2)[OF lt t[symmetric] refl Some True "1.prems"(1) le "1.prems"(3)] t Some True lt
      show ?thesis by (subst get_PR_loop.simps) (simp del: get_PR_loop.simps)
    next
      case False
      have "e = IndexError"
      proof (rule ccontr)
        assume "e \<noteq> IndexError"
        with pr_try_raises[of output_type pr_list sesh st s1 st1 e] t Some False
        have pr: "output_type = ''pr''" and i: "pr_index st < length pr_list"
          and n: "p_closed_at (pr_list ! pr_index st) = None" by auto
        from i have "pr_list ! pr_index st \<in> set pr_list" by (rule nth_mem)
        with pr "1.prems"(3) n show False by blast
      qed
      with t Some lt show ?thesis by (subst get_PR_loop.simps) (simp del: get_PR_loop.simps)
    qed
  qed
qed

lemma get_PR_loop_Inl:
  assumes "output_type = ''pr'' \<longrightarrow> (\<forall>p \<in> set pr_list. p_closed_at p \<noteq> None)"
      and "get_PR_loop output_type pr_list sesh st = Inl e"
  shows "e = IndexError"
  using assms
proof (induction output_type pr_list sesh st rule: get_PR_loop.induct)
  case (1 output_type pr_list sesh st)
  show ?case
  proof (cases "pr_index st < RATE_LIMIT")
    case False
    with "1.prems"(2) show ?thesis by (subst (asm) get_PR_loop.simps) (simp del: get_PR_loop.simps)
  next
    case lt: True
    obtain s1 st1 r where t: "pr_try output_type pr_list sesh st = (s1, st1, r)"
      by (cases "pr_try output_type pr_list sesh st") auto
    show ?thesis
    proof (cases r)
      case None
      from "1.prems"(2) t None lt have "get_PR_loop output_type pr_list s1 st1 = Inl e"
        by (subst (asm) get_PR_loop.simps) (simp del: get_PR_loop.simps)
      from "1.IH"(1)[OF lt t[symmetric] refl None "1.prems"(1) this] show ?thesis .
    next
      case (Some e')
      show ?thesis
      proof (cases "e' = RateLimitExceededException")
        case True
        from "1.prems"(2) t Some True lt have "get_PR_loop output_type pr_list s1 st1 = Inl e"
          by (subst (asm) get_PR_loop.simps) (simp del: get_PR_loop.simps)
        from "1.IH"(2)[OF lt t[symmetric] refl Some True "1.prems"(1) this] show ?thesis .
      next
        case False
        from "1.prems"(2) t Some False lt have "e = e'"
          by (subst (asm) get_PR_loop.simps) (simp del: get_PR_loop.simps)
        moreover have "e' = IndexError"
        proof (rule ccontr)
          assume "e' \<noteq> IndexError"
          with pr_try_raises[of output_type pr_list sesh st s1 st1 e'] t Some False
          have pr: "output_type = ''pr''" and i: "pr_index st < length pr_list"
            and n: "p_closed_at (pr_list ! pr_index st) = None" by auto
          from i have "pr_list ! pr_index st \<in> set pr_list" by (rule nth_mem)
          with pr "1.prems"(1) n show False by blast
        qed
        ultimately show ?thesis by simp
      qed
    qed
  qed
qed


lemma get_issue_loop_short:
  assumes "length issue_list < RATE_LIMIT"
      and "issue_index st \<le> length issue_list"
      and "\<forall>i \<in> set issue_list. i_closed_at i \<noteq> None"
  shows "get_issue_loop issue_list sesh st = Inl IndexError"
  using assms
proof (induction issue_list sesh st rule: get_issue_loop.induct)
  case (1 issue_list sesh st)
  from "1.prems" have lt: "issue_index st < RATE_LIMIT" by simp
  obtain s1 st1 r where t: "issue_try issue_list sesh st = (s1, st1, r)"
    by (cases "issue_try issue_list sesh st") auto
  show ?case
  proof (cases r)
    case None
    from issue_try_item t None have "issue_index st < length issue_list" by blast
    moreover from issue_try_None t None have "issue_index st1 = Suc (issue_index st)" by blast
    ultimately have le: "issue_index st1 \<le> length issue_list" by simp
    from "1.IH"(1)[OF lt t[symmetric] refl None "1.prems"(1) le "1.prems"(3)] t None lt
    show ?thesis by (subst get_issue_loop.simps) (simp del: get_issue_loop.simps)
  next
    case (Some e)
    show ?thesis
    proof (cases "e = RateLimitExceededException")
      case True
      from issue_try_limited t Some True have "issue_index st1 = issue_index st" by blast
      with "1.prems"(2) have le: "issue_index st1 \<le> length issue_list" by simp
      from "1.IH"(2)[OF lt t[symmetric] refl Some True "1.prems"(1) le "1.prems"(3)] t Some True lt
      show ?thesis by (subst get_issue_loop.simps) (simp del: get_issue_loop.simps)
    next
      case False
      have "e = IndexError"
      proof (rule ccontr)
        assume "e \<noteq> IndexError"
        with issue_try_raises_which[of issue_list sesh st s1 st1 e] t Some False
        have i: "issue_index st < length issue_list"
          and n: "i_closed_at (issue_list ! issue_index st) = None" by auto
        from i have "issue_list ! issue_index st \<in> set issue_list" by (rule nth_mem)
        with "1.prems"(3) n show False by blast
      qed
      with t Some lt show ?thesis by (subst get_issue_loop.simps) (simp del: get_issue_loop.simps)
    qed
  qed
qed

text \<open>
  \<^verbatim>\<open>commits_list\<close> only ever holds the placeholder or commit objects, and on such a
  list \<^verbatim>\<open>get_commit_info\<close> raises nothing but \<open>IndexError\<close>.
\<close>

lemma pr_try_refs:
  assumes "pr_try output_type pr_list sesh st = (sesh', st', r)"
      and "placeholder_or_commit (most_recent_commit st)"
      and "list_all placeholder_or_commit (commits_list st)"
  shows "placeholder_or_commit (most_recent_commit st') \<and>
         list_all placeholder_or_commit (commits_list st')"
  using assms unfolding pr_try_def Let_def
  by (auto split: prod.splits sum.splits if_splits simp: bind_def placeholder_or_commit_def)

lemma get_PR_loop_refs:
  assumes "get_PR_loop output_type pr_list sesh st = Inr (sesh', st')"
      and "placeholder_or_commit (most_recent_commit st)"
      and "list_all placeholder_or_commit (commits_list st)"
  shows "list_all placeholder_or_commit (commits_list st')"
  using assms
proof (induction output_type pr_list sesh st rule: get_PR_loop.induct)
  case (1 output_type pr_list sesh st)
  show ?case
  proof (cases "pr_index st < RATE_LIMIT")
    case False
    with "1.prems" show ?thesis
      by (subst (asm) get_PR_loop.simps) (simp del: get_PR_loop.simps)
  next
    case lt: True
    obtain s1 st1 r where t: "pr_try output_type pr_list sesh st = (s1, st1, r)"
      by (cases "pr_try output_type pr_list sesh st") auto
    from pr_try_refs[OF t "1.prems"(2,3)]
    have inv: "placeholder_or_commit (most_recent_commit st1)"
              "list_all placeholder_or_commit (commits_list st1)" by blast+
    show ?thesis
    proof (cases r)
      case None
      from "1.prems"(1) t None lt have "get_PR_loop output_type pr_list s1 st1 = Inr (sesh', st')"
        by (subst (asm) get_PR_loop.simps) (simp del: get_PR_loop.simps)
      from "1.IH"(1)[OF lt t[symmetric] refl None this inv] show ?thesis .
    next
      case (Some e)
      from "1.prems"(1) t Some lt have e: "e = RateLimitExceededException"
        by (subst (asm) get_PR_loop.simps) (simp del: get_PR_loop.simps split: if_splits)
      with "1.prems"(1) t Some lt have "get_PR_loop output_type pr_list s1 st1 = Inr (sesh', st')"
        by (subst (asm) get_PR_loop.simps) (simp del: get_PR_loop.simps)
      from "1.IH"(2)[OF lt t[symmetric] refl Some e this inv] show ?thesis .
    qed
  qed
qed

lemma commit_branch_raises:
  "commit_branch output_type c sesh st = (sesh', st', Some e) \<Longrightarrow> e = RateLimitExceededException"
  unfolding commit_branch_def Let_def
  by (auto split: prod.splits sum.splits if_splits simp: files_def)

lemma commit_try_raises:
  assumes "commit_try output_type commit_list sesh st = (sesh', st', Some e)"
      and "list_all placeholder_or_commit commit_list"
  shows "e = RateLimitExceededException \<or> e = IndexError"
proof (cases "commit_list_index st < length commit_list")
  case False
  with assms(1) show ?thesis by (simp add: commit_try_def getitem_def)
next
  case True
  with assms(2) have ok: "placeholder_or_commit (commit_list ! commit_list_index st)"
    by (simp add: list_all_length)
  show ?thesis
  proof (cases "commit_list ! commit_list_index st")
    case (Placeholder s)
    with ok have "s = '' =||= ''" by (simp add: placeholder_or_commit_def)
    with assms(1) True Placeholder show ?thesis by (simp add: commit_try_def getitem_def)
  next
    case (Commit c)
    with assms(1) True obtain s1 st1 where "commit_branch output_type c sesh st = (s1, st1, Some e)"
      by (auto simp: commit_try_def getitem_def split: prod.splits option.splits)
    with commit_branch_raises show ?thesis by blast
  qed
qed

lemma get_commit_loop_Inl:
  assumes "get_commit_loop output_type commit_list sesh st = Inl e"
      and "list_all placeholder_or_commit commit_list"
  shows "e = IndexError"
  using assms
proof (induction output_type commit_list sesh st rule: get_commit_loop.induct)
  case (1 output_type commit_list sesh st)
  show ?case
  proof (cases "commit_list_index st < RATE_LIMIT")
    case False
    with "1.prems"(1) show ?thesis
      by (subst (asm) get_commit_loop.simps) (simp del: get_commit_loop.simps)
  next
    case lt: True
    obtain s1 st1 r where t: "commit_try output_type commit_list sesh st = (s1, st1, r)"
      by (cases "commit_try output_type commit_list sesh st") auto
    show ?thesis
    proof (cases r)
      case None
      from "1.prems"(1) t None lt have "get_commit_loop output_type commit_list s1 st1 = Inl e"
        by (subst (asm) get_commit_loop.simps) (simp del: get_commit_loop.simps)
      from "1.IH"(1)[OF lt t[symmetric] refl None this "1.prems"(2)] show ?thesis .
    next
      case (Some e')
      show ?thesis
      proof (cases "e' = RateLimitExceededException")
        case True
        from "1.prems"(1) t Some True lt
        have "get_commit_loop output_type commit_list s1 st1 = Inl e"
          by (subst (asm) get_commit_loop.simps) (simp del: get_commit_loop.simps)
        from "1.IH"(2)[OF lt t[symmetric] refl Some True this "1.prems"(2)] show ?thesis .
      next
        case False
        from "1.prems"(1) t Some False lt have "e = e'"
          by (subst (asm) get_commit_loop.simps) (simp del: get_commit_loop.simps)
        moreover from commit_try_raises[OF _ "1.prems"(2)] t Some False have "e' = IndexError"
          by blast
        ultimately show ?thesis by simp
      qed
    qed
  qed
qed

text \<open>
  C4, as the script has it. There is no "misaligned extraction" error, and the rows
  are never aligned on a short sequence. If the repository has fewer than RATE_LIMIT
  pull requests, or in output type "pr" fewer than RATE_LIMIT closed issues, the run
  ends inside the extractor with an uncaught \<open>IndexError\<close> before the output file
  is opened: nothing is written, not even the header. This holds for every quota
  schedule; in output type "pr" it is stated for sources whose pull requests and
  issues are all closed.
\<close>

theorem short_source_raises_IndexError:
  assumes "length pr_list < RATE_LIMIT \<or>
           (output_type = ''pr'' \<and> length issues_list < RATE_LIMIT)"
      and "output_type = ''pr'' \<longrightarrow>
             (\<forall>p \<in> set pr_list. p_closed_at p \<noteq> None) \<and>
             (\<forall>i \<in> set issues_list. i_closed_at i \<noteq> None)"
  shows "write_csv_output sesh output_type (issues_list, pr_list) = ([], Some IndexError)"
proof -
  let ?st0 = "\<lparr>commits_list = [], pr_index = 0, most_recent_commit = Placeholder sentinel,
               pr_info_list = [], pr_metalist = []\<rparr>"
  from assms(2) have closed: "output_type = ''pr'' \<longrightarrow> (\<forall>p \<in> set pr_list. p_closed_at p \<noteq> None)"
    by blast
  show ?thesis
  proof (cases "get_PR_loop output_type pr_list sesh ?st0")
    case (Inl e)
    from get_PR_loop_Inl[OF closed Inl] Inl show ?thesis
      by (simp add: write_csv_output_def get_PR_info_def del: get_PR_loop.simps)
  next
    case (Inr r)
    obtain s1 st1 where r: "r = (s1, st1)" by (cases r)
    have long: "\<not> length pr_list < RATE_LIMIT"
    proof
      assume "length pr_list < RATE_LIMIT"
      from get_PR_loop_short[OF this _ closed, of ?st0 sesh] Inr show False by simp
    qed
    with assms have pr: "output_type = ''pr''" and short: "length issues_list < RATE_LIMIT"
      and iclosed: "\<forall>i \<in> set issues_list. i_closed_at i \<noteq> None" by blast+
    from get_PR_loop_refs[of output_type pr_list sesh ?st0 s1 st1] Inr r
    have refs: "list_all placeholder_or_commit (commits_list st1)"
      by (simp add: placeholder_or_commit_def sentinel_def del: get_PR_loop.simps)
    have pri: "get_PR_info pr_list sesh output_type = Inr (s1, pr_metalist st1, commits_list st1)"
      using Inr r by (simp add: get_PR_info_def del: get_PR_loop.simps)
    show ?thesis
    proof (cases "get_commit_info (commits_list st1) s1 output_type")
      case (Inl e)
      then have "e = IndexError"
        using get_commit_loop_Inl[OF _ refs]
        by (auto simp: get_commit_info_def simp del: get_commit_loop.simps split: sum.splits)
      with Inl pri show ?thesis by (simp add: write_csv_output_def)
    next
      case (Inr r2)
      obtain s2 cm where r2: "r2 = (s2, cm)" by (cases r2)
      have "get_issue_info issues_list s2 = Inl IndexError"
        using get_issue_loop_short[OF short _ iclosed]
        by (simp add: get_issue_info_def del: get_issue_loop.simps)
      with Inr r2 pri pr show ?thesis by (simp add: write_csv_output_def)
    qed
  qed
qed

theorem short_source_raises_IndexError_witness:
  "length four_pulls < RATE_LIMIT \<and>
   write_csv_output sesh0 ''commit'' ([], four_pulls) = ([], Some IndexError) \<and>
   length four_issues < RATE_LIMIT \<and>
   write_csv_output sesh0 ''pr'' (four_issues, five_pulls) = ([], Some IndexError)"
proof -
  have 1: "length four_pulls < RATE_LIMIT" "length four_issues < RATE_LIMIT"
    by (simp_all add: four_pulls_def four_issues_def RATE_LIMIT_def)
  have 2: "\<forall>p \<in> set five_pulls. p_closed_at p \<noteq> None"
    by (simp add: five_pulls_def pull_of_def)
  have 3: "\<forall>i \<in> set four_issues. i_closed_at i \<noteq> None"
    by (simp add: four_issues_def issue_of_def)
  from short_source_raises_IndexError[of four_pulls "''commit''" "[]" sesh0] 1
  have a: "write_csv_output sesh0 ''commit'' ([], four_pulls) = ([], Some IndexError)"
    by simp
  from short_source_raises_IndexError[of five_pulls "''pr''" four_issues sesh0] 1 2 3
  have b: "write_csv_output sesh0 ''pr'' (four_issues, five_pulls) = ([], Some IndexError)"
    by simp
  from 1 a b show ?thesis by simp
qed

text \<open>
  The claim as the specification states it fails: on a repository with four pull
  requests the run ends with \<open>IndexError\<close>, the exception the claim excludes, and
  not with a "misaligned extraction" error.
\<close>

theorem misaligned_extraction_counterexample:
  "length (pulls (remote_repo world_four)) = 4 \<and>
   main args_commit world_four = (Some ''alice'', [], Some IndexError)"
proof -
  let ?s = "\<lparr>login_or_token = ''alice'', throttle = []\<rparr>"
  have n: "length (pulls (remote_repo world_four)) = 4"
    by (simp add: world_four_def four_pulls_def)
  have r: "read_user_info (auth_lines world_four) = [''alice'', ''ghp_token'']"
    by code_simp
  have g: "get_paginated_lists (remote_repo world_four) ''commit''
             \<lparr>login_or_token = ''alice'', throttle = quota world_four\<rparr> = (?s, [], four_pulls)"
    by code_simp
  have "length four_pulls < RATE_LIMIT"
    by (simp add: four_pulls_def RATE_LIMIT_def)
  from get_PR_loop_short[OF this, of _ "''commit''" ?s]
  have "get_PR_info four_pulls ?s ''commit'' = Inl IndexError"
    by (simp add: get_PR_info_def del: get_PR_loop.simps)
  then have w: "write_csv_output ?s ''commit'' ([], four_pulls) = ([], Some IndexError)"
    by (simp add: write_csv_output_def)
  have "main args_commit world_four = (Some ''alice'', [], Some IndexError)"
    by (simp add: main_def get_CLI_args_def args_commit_def getitem_def r g w)
  with n show ?thesis by simp
qed

subsection \<open>Where the script departs from the specification\<close>

text \<open>
  The theorems of this part run the script on the example repository. Each one
  records what the code returns at an input where a law of the specification asks for
  something else.
\<close>

text \<open>
  C1. Positional alignment law: the commit fragment of row i is built from the most
  recent commit of the PR of row i and never from a commit of another PR. The script
  keeps \<open>most_recent_commit\<close> from one pass of the PR loop to the next, so a PR
  without commits takes the commit of the last PR before it that had one: in the run
  below the PRs 12, 14 and 15 have no commits, and their rows carry the commits of the
  PRs 11 and 13 (column 2 is the PR number, column 0 the commit author).
\<close>

theorem stale_commit_joined_to_next_PR:
  "map (\<lambda>p. (p_number p, map c_author_name (p_commits p))) five_pulls =
     [(11, [''ann'', ''bob'']), (12, []), (13, [''cy'']), (14, []), (15, [])] \<and>
   map (\<lambda>row. (row ! 2, row ! 0)) (tl (fst (write_csv_output sesh0 ''commit'' ([], five_pulls)))) =
     [(PyInt 11, PyStr ''bob''), (PyInt 12, PyStr ''bob''), (PyInt 13, PyStr ''cy''),
      (PyInt 14, PyStr ''cy''), (PyInt 15, PyStr ''cy'')]"
  by code_simp

text \<open>
  C2. Zero-commit law: for a PR without commits every column of the commit fragment is
  the special string. The script never builds such a fragment. When no PR so far had
  a commit, the reference is the placeholder and \<^verbatim>\<open>get_commit_info\<close> appends
  \<open>commit_info_list\<close> as it stands, the empty list at the start, so the first read
  of the aggregation loop raises \<open>IndexError\<close> after the header row. When an
  earlier PR had a commit, the reference is that commit (last conjunct: the PRs 12, 14
  and 15 of the example have no commits).
\<close>

theorem zero_commit_fragment_not_sentinel:
  "get_PR_info no_commit_pulls sesh0 ''commit'' =
     Inr (sesh0, [[PyInt 21], [PyInt 22], [PyInt 23], [PyInt 24], [PyInt 25]],
          replicate 5 (Placeholder sentinel)) \<and>
   get_commit_info (replicate 5 (Placeholder sentinel)) sesh0 ''commit'' =
     Inr (sesh0, [[], [], [], [], []]) \<and>
   write_csv_output sesh0 ''commit'' ([], no_commit_pulls) =
     ([map PyStr COMMIT_COL_NAMES], Some IndexError) \<and>
   (case get_PR_info five_pulls sesh0 ''commit'' of Inl e \<Rightarrow> [] | Inr (s, m, refs) \<Rightarrow> refs) =
     [Commit (commit_by ''bob''), Commit (commit_by ''bob''), Commit (commit_by ''cy''),
      Commit (commit_by ''cy''), Commit (commit_by ''cy'')]"
  by code_simp

text \<open>
  C3. The isPR field of issue fragment i is 1 if issue i carries a pull-request link
  and 0 otherwise, whatever the other issues are. The script sets \<open>isPR\<close> to 0
  once, before the loop: after the first linked issue every later fragment holds 1.
\<close>

theorem isPR_carried_forward:
  "map i_pull_request five_issues = [Some ''https://pulls/11'', None, None, None, None] \<and>
   (case get_issue_info five_issues sesh0 of
      Inl e \<Rightarrow> []
    | Inr (s, m) \<Rightarrow> map (\<lambda>fragment. fragment ! 5) m) =
     [PyInt 1, PyInt 1, PyInt 1, PyInt 1, PyInt 1]"
  by code_simp

text \<open>
  C5. Backoff idempotence: a rate-limit exception in pass i leaves the index where it
  is, pass i runs again, and the output is that of a run without throttling. In the
  PR loop the fragment is appended to \<open>pr_metalist\<close> before the requests for the
  commits of the PR (\<^verbatim>\<open>totalCount\<close> and the indexing of the commits); the retry
  after an exception in one of them appends the fragment a second time. Below, the
  second request of the run (the \<^verbatim>\<open>totalCount\<close> of PR 11) is throttled once: the
  run ends without an exception, PR 11 fills two rows, PR 15 is lost, and the commits
  of PR 13 stand in the rows of the PRs 12 to 14.
\<close>

theorem throttled_run_differs:
  "(case get_PR_info five_pulls sesh0 ''commit'' of Inl e \<Rightarrow> [] | Inr (s, m, refs) \<Rightarrow> m) =
     [[PyInt 11], [PyInt 12], [PyInt 13], [PyInt 14], [PyInt 15]] \<and>
   (case get_PR_info five_pulls (sesh0\<lparr>throttle := [False, True]\<rparr>) ''commit'' of
      Inl e \<Rightarrow> [] | Inr (s, m, refs) \<Rightarrow> m) =
     [[PyInt 11], [PyInt 11], [PyInt 12], [PyInt 13], [PyInt 14], [PyInt 15]] \<and>
   (case write_csv_output (sesh0\<lparr>throttle := [False, True]\<rparr>) ''commit'' ([], five_pulls) of
      (csvfile, raised) \<Rightarrow> (raised, map (\<lambda>row. (row ! 2, row ! 0)) (tl csvfile))) =
     (None, [(PyInt 11, PyStr ''bob''), (PyInt 11, PyStr ''bob''), (PyInt 12, PyStr ''cy''),
             (PyInt 13, PyStr ''cy''), (PyInt 14, PyStr ''cy'')])"
  by code_simp

text \<open>
  C6. In output type "pr" the field at each position of a data row holds the value
  that the header names at that position. Both have 15 entries, but the row is built
  in the order PR_Title, PR_Body, PR_Comments, Issue_Comments, PR_Author at the
  positions 6 to 10, where the header PR_COL_NAMES has PR_Author, PR_Title, PR_Body,
  PR_Comments, Issue_Comments.
\<close>

theorem pr_row_order_differs_from_header:
  "(p_user_login (five_pulls ! 0), p_title (five_pulls ! 0), p_comments (five_pulls ! 0),
    i_comments (five_issues ! 0)) = (''dev'', ''title'', 4, 0) \<and>
   (let csvfile = fst (write_csv_output sesh0 ''pr'' (five_issues, five_pulls))
    in map (\<lambda>k. (csvfile ! 0 ! k, csvfile ! 1 ! k)) [6, 7, 8, 9, 10]) =
     [(PyStr ''PR_Author'', PyStr ''title''),
      (PyStr ''PR_Title'', PyStr (quoted (''line1'' @ [CHR 0x0A] @ ''line2''))),
      (PyStr ''PR_Body'', PyStr ''4''),
      (PyStr ''PR_Comments'', PyStr '' =||= ''),
      (PyStr ''Issue_Comments'', PyStr ''dev'')]"
  by code_simp

text \<open>
  C7. Text-normalization law: every newline of a PR or issue body is removed before
  the body is quoted. The script calls \<^verbatim>\<open>strip('\n')\<close>, which removes newlines at
  the two ends only: the body "line1\nline2" is stored with its newline.
\<close>

theorem embedded_newline_kept:
  "p_body (pull_of 11 4 []) = Some (''line1'' @ [CHR 0x0A] @ ''line2'') \<and>
   pr_type_fields (pull_of 11 4 []) =
     Inr [PyStr ''dev'', PyStr ([CHR 0x22] @ ''line1'' @ [CHR 0x0A] @ ''line2'' @ [CHR 0x22]),
          PyStr ''11/03/20 02:05:09 PM'', PyStr ''4'', PyStr ''title''] \<and>
   i_body (issue_of 3 None) = Some (''line1'' @ [CHR 0x0A] @ ''line2'') \<and>
   issue_context_list (fst (snd (issue_try [issue_of 3 None] sesh0 issue_locals0))) ! 3 =
     PyStr ([CHR 0x22] @ ''line1'' @ [CHR 0x0A] @ ''line2'' @ [CHR 0x22]) \<and>
   strip_chars [CHR 0x0A] ([CHR 0x0A] @ ''line1'' @ [CHR 0x0A] @ ''line2'' @ [CHR 0x0A]) =
     ''line1'' @ [CHR 0x0A] @ ''line2''"
  by code_simp

lemma request_login: "request sesh = (b, sesh') \<Longrightarrow> login_or_token sesh' = login_or_token sesh"
  by (auto simp: request_def split: list.splits)

lemma get_paginated_lists_login:
  "login_or_token (fst (get_paginated_lists repo_obj output_type sesh)) = login_or_token sesh"
proof (induction repo_obj output_type sesh rule: get_paginated_lists.induct)
  case (1 repo_obj output_type sesh)
  obtain b sesh' where r: "request sesh = (b, sesh')" by (cases "request sesh")
  show ?case
  proof (cases b)
    case True
    with r "1.IH"[OF r[symmetric]] request_login[OF r] show ?thesis
      by (subst get_paginated_lists.simps) simp
  next
    case False
    with r request_login[OF r] show ?thesis
      by (subst get_paginated_lists.simps) simp
  qed
qed

lemma get_paginated_lists_login':
  "get_paginated_lists repo_obj output_type sesh = (sesh', paged_list_tuple)
   \<Longrightarrow> login_or_token sesh' = login_or_token sesh"
  using get_paginated_lists_login[of repo_obj output_type sesh] by simp

text \<open>The session is authenticated with the first entry of \<^verbatim>\<open>userauth_list\<close>.\<close>

lemma main_login:
  assumes "getitem (read_user_info (auth_lines w)) 0 = Inr tok"
  shows "fst (main args w) = Some tok"
  using assms
  by (auto simp: main_def Let_def split: prod.splits dest!: get_paginated_lists_login')

text \<open>
  C9. The session is authenticated with the access token, the second non-blank line
  of the auth file. \<^verbatim>\<open>main\<close> gives \<^verbatim>\<open>userauth_list[0]\<close> to
  \<^verbatim>\<open>github.Github\<close>: the first non-blank line, which the documented file format
  reserves for the username.
\<close>

theorem session_uses_first_line:
  "auth_lines world0 = [''alice'' @ [CHR 0x0A], [CHR 0x0A], ''ghp_token'' @ [CHR 0x0A]] \<and>
   read_user_info (auth_lines world0) = [''alice'', ''ghp_token''] \<and>
   fst (main args_pr world0) = Some ''alice''"
proof -
  have 1: "auth_lines world0 = [''alice'' @ [CHR 0x0A], [CHR 0x0A], ''ghp_token'' @ [CHR 0x0A]]"
    by (simp add: world0_def)
  have 2: "read_user_info (auth_lines world0) = [''alice'', ''ghp_token'']" by code_simp
  then have "getitem (read_user_info (auth_lines world0)) 0 = Inr ''alice''"
    by (simp add: getitem_def)
  from main_login[OF this] 1 2 show ?thesis by simp
qed

end
